theory Spec2Isabelle
  imports Complex_Main "HOL-Library.Multiset"
begin

section \<open>Conventions\<close>

text \<open>
  A numpy float is modelled as a \<^typ>\<open>real\<close>, a one-dimensional float array as a
  \<^typ>\<open>real list\<close>, and a two-dimensional array as the list of its rows. Every exception
  the Python raises is a value of \<open>error\<close>, returned as \<open>Inl\<close>. The outcome of a
  random call (a permutation, a draw from a simulator) is an argument of the function that
  makes the call.
\<close>

datatype error = ValueError | IndexError | TypeError | AssertionError | AxisError

type_synonym vec = "real list"

section \<open>dataset.py: RatioDataset\<close>

text \<open>
  The fields of \<open>RatioDataset\<close>. The Python names them \<open>x\<close>, \<open>theta_0s\<close>,
  \<open>theta_1s\<close>, \<open>y\<close> and \<open>nllr\<close>; the prefix keeps \<open>x\<close> and \<open>y\<close> free as variable
  names. \<open>None\<close> is Python's \<open>None\<close>.
\<close>

record ratio_dataset =
  ds_x :: "vec list"
  ds_theta_0s :: "vec list"
  ds_theta_1s :: "vec list"
  ds_y :: "real list option"
  ds_nllr :: "real list option"

text \<open>
  Modelled from the spec: \<open>util.ensure_2d\<close> is not in the sources at hand. The spec has the
  features as a 2D array (examples by feature dimension); on the list of rows, which is
  two-dimensional already, it changes nothing.
\<close>

definition ensure_2d :: "vec list \<Rightarrow> vec list" where
  "ensure_2d a = a"

text \<open>Sequencing of calls that may raise: the first error is the result.\<close>

definition bind_err :: "error + 'a \<Rightarrow> ('a \<Rightarrow> error + 'b) \<Rightarrow> error + 'b" where
  "bind_err m f = (case m of Inl e \<Rightarrow> Inl e | Inr v \<Rightarrow> f v)"

text \<open>
  \<open>arr[p]\<close> for an index array \<open>p\<close> of non-negative integers: numpy raises
  \<open>IndexError\<close> when an index is out of bounds.
\<close>

definition take_idx :: "'a list \<Rightarrow> nat list \<Rightarrow> error + 'a list" where
  "take_idx arr p =
     (if \<forall>i\<in>set p. i < length arr then Inr (map (\<lambda>i. arr ! i) p) else Inl IndexError)"

text \<open>
  The same for an attribute that may be \<open>None\<close>: \<open>None[p]\<close> raises the \<open>TypeError\<close>
  that \<open>shuffle\<close> catches, and the attribute stays \<open>None\<close>.
\<close>

definition take_idx_opt :: "'a list option \<Rightarrow> nat list \<Rightarrow> error + 'a list option" where
  "take_idx_opt a p =
     (case a of None \<Rightarrow> Inr None | Some arr \<Rightarrow> bind_err (take_idx arr p) (\<lambda>r. Inr (Some r)))"

text \<open>
  \<open>RatioDataset.shuffle\<close>; \<open>p\<close> is the value of \<open>np.random.permutation(len(self.x))\<close>.
\<close>

definition shuffle :: "nat list \<Rightarrow> ratio_dataset \<Rightarrow> error + ratio_dataset" where
  "shuffle p self =
     bind_err (take_idx (ds_x self) p) (\<lambda>x'.
     bind_err (take_idx (ds_theta_0s self) p) (\<lambda>t0'.
     bind_err (take_idx (ds_theta_1s self) p) (\<lambda>t1'.
     bind_err (take_idx_opt (ds_y self) p) (\<lambda>y'.
     bind_err (take_idx_opt (ds_nllr self) p) (\<lambda>n'.
     Inr \<lparr> ds_x = x', ds_theta_0s = t0', ds_theta_1s = t1', ds_y = y', ds_nllr = n' \<rparr>)))))"

text \<open>\<open>RatioDataset.__len__\<close>.\<close>

definition ds_len :: "ratio_dataset \<Rightarrow> nat" where
  "ds_len self = length (ds_x self)"

text \<open>The lengths of the arrays that are not \<open>None\<close>, as \<open>map(len, arrs)\<close> lists them.\<close>

definition arr_lens ::
  "vec list \<Rightarrow> vec list \<Rightarrow> vec list \<Rightarrow> real list option \<Rightarrow> real list option \<Rightarrow> nat list" where
  "arr_lens x0 t0 t1 y0 n0 =
     [length x0, length t0, length t1]
     @ (case y0 of None \<Rightarrow> [] | Some arr \<Rightarrow> [length arr])
     @ (case n0 of None \<Rightarrow> [] | Some arr \<Rightarrow> [length arr])"

text \<open>
  \<open>RatioDataset.__init__\<close>. \<open>do_shuffle\<close> is the argument \<open>shuffle\<close>, and \<open>p\<close> the
  permutation that \<open>self.shuffle()\<close> draws when it runs.
\<close>

definition RatioDataset ::
  "vec list \<Rightarrow> vec list \<Rightarrow> vec list \<Rightarrow> real list option \<Rightarrow> real list option
     \<Rightarrow> bool \<Rightarrow> nat list \<Rightarrow> error + ratio_dataset" where
  "RatioDataset x0 t0 t1 y0 n0 do_shuffle p =
     (let self = \<lparr> ds_x = ensure_2d x0, ds_theta_0s = t0, ds_theta_1s = t1,
                   ds_y = y0, ds_nllr = n0 \<rparr>;
          arrs = arr_lens (ds_x self) (ds_theta_0s self) (ds_theta_1s self) y0 n0
      in if card (set arrs) \<noteq> 1 then Inl ValueError
         else if do_shuffle then shuffle p self
         else Inr self)"

text \<open>The \<open>i\<close>-th example of a dataset: one entry of every per-example array.\<close>

definition example_at ::
  "ratio_dataset \<Rightarrow> nat \<Rightarrow> vec \<times> vec \<times> vec \<times> real option \<times> real option" where
  "example_at self i =
     (ds_x self ! i, ds_theta_0s self ! i, ds_theta_1s self ! i,
      map_option (\<lambda>arr. arr ! i) (ds_y self), map_option (\<lambda>arr. arr ! i) (ds_nllr self))"

definition examples ::
  "ratio_dataset \<Rightarrow> (vec \<times> vec \<times> vec \<times> real option \<times> real option) list" where
  "examples self = map (example_at self) [0..<ds_len self]"

text \<open>The triple \<open>(x_i, y_i, theta_1_i)\<close> of an example.\<close>

definition triple_of ::
  "vec \<times> vec \<times> vec \<times> real option \<times> real option \<Rightarrow> vec \<times> real option \<times> vec" where
  "triple_of e = (case e of (xi, t0i, t1i, yi, ni) \<Rightarrow> (xi, yi, t1i))"

text \<open>All per-example arrays that are present have the length of \<open>x\<close>.\<close>

definition same_lengths :: "ratio_dataset \<Rightarrow> bool" where
  "same_lengths self \<longleftrightarrow>
     length (ds_theta_0s self) = ds_len self \<and> length (ds_theta_1s self) = ds_len self \<and>
     (case ds_y self of None \<Rightarrow> True | Some arr \<Rightarrow> length arr = ds_len self) \<and>
     (case ds_nllr self of None \<Rightarrow> True | Some arr \<Rightarrow> length arr = ds_len self)"

text \<open>
  Modelled from the spec: the concatenation behind \<open>self.dataset += new_ds\<close> is not in the
  sources at hand (\<open>RatioDataset\<close> there defines neither \<open>__add__\<close> nor \<open>__iadd__\<close>). The
  spec: "concatenating two datasets yields a dataset whose arrays are the elementwise
  concatenation of the operands' arrays (lengths sum)". An optional array that both operands
  lack stays absent; the spec gives no result when only one operand has it, and the model
  fails there.
\<close>

definition concat_opt :: "real list option \<Rightarrow> real list option \<Rightarrow> error + real list option" where
  "concat_opt a b =
     (case (a, b) of
        (None, None) \<Rightarrow> Inr None
      | (Some u, Some v) \<Rightarrow> Inr (Some (u @ v))
      | _ \<Rightarrow> Inl ValueError)"

definition iadd :: "ratio_dataset \<Rightarrow> ratio_dataset \<Rightarrow> error + ratio_dataset" where
  "iadd self other =
     bind_err (concat_opt (ds_y self) (ds_y other)) (\<lambda>y'.
     bind_err (concat_opt (ds_nllr self) (ds_nllr other)) (\<lambda>n'.
     Inr \<lparr> ds_x = ds_x self @ ds_x other,
           ds_theta_0s = ds_theta_0s self @ ds_theta_0s other,
           ds_theta_1s = ds_theta_1s self @ ds_theta_1s other,
           ds_y = y', ds_nllr = n' \<rparr>))"

section \<open>dataset.py: ParamIterator, SingleParamIterator, ParamGrid\<close>

text \<open>
  A \<open>ParamIterator\<close> is the list \<open>values\<close> of its parameter vectors. The cast to
  \<open>float32\<close> is the identity of the model (the grid values of the claims, multiples of
  \<open>1/4\<close>, are \<open>float32\<close> numbers).
\<close>

definition ParamIterator :: "vec list \<Rightarrow> vec list" where
  "ParamIterator vals = vals"

text \<open>\<open>SingleParamIterator(theta, n_samples)\<close>, for \<open>theta\<close> an array.\<close>

definition SingleParamIterator :: "vec \<Rightarrow> nat \<Rightarrow> vec list" where
  "SingleParamIterator theta n_samples = ParamIterator (replicate n_samples theta)"

text \<open>\<open>values.__getitem__(item)\<close> for an index \<open>item \<ge> 0\<close>.\<close>

definition getitem :: "'a list \<Rightarrow> nat \<Rightarrow> error + 'a" where
  "getitem vals item = (if item < length vals then Inr (vals ! item) else Inl IndexError)"

text \<open>
  \<open>np.linspace(start, stop, num)\<close> with \<open>endpoint=True\<close>: \<open>arange(num) * step + start\<close>
  with \<open>step = (stop - start) / (num - 1)\<close>, the last entry set to \<open>stop\<close>; a single
  sample is \<open>start\<close>; a negative \<open>num\<close> raises \<open>ValueError\<close>.
\<close>

definition linspace :: "real \<Rightarrow> real \<Rightarrow> int \<Rightarrow> error + vec" where
  "linspace start stop num =
     (if num < 0 then Inl ValueError
      else let n = nat num; dv = n - 1; delta = stop - start;
               ys = map (\<lambda>i. (if dv > 0 then real i * (delta / real dv) else real i * delta) + start)
                        [0..<n]
           in Inr (if n > 1 then ys[n - 1 := stop] else ys))"

text \<open>The argument \<open>num\<close>: one point count for every dimension, or one per dimension.\<close>

datatype num_arg = Shared int | PerDim "int list"

record param_grid =
  pg_linspaces :: "vec list"
  pg_values :: "vec list"

text \<open>
  The list comprehension over \<open>enumerate(bounds)\<close>: \<open>num[i]\<close> raises \<open>IndexError\<close> when the
  sequence is too short.
\<close>

fun build_linspaces :: "(real \<times> real) list \<Rightarrow> int list \<Rightarrow> error + vec list" where
  "build_linspaces [] nums = Inr []"
| "build_linspaces (b # bs) [] = Inl IndexError"
| "build_linspaces (b # bs) (n # ns) =
     bind_err (linspace (fst b) (snd b) n) (\<lambda>l.
     bind_err (build_linspaces bs ns) (\<lambda>ls. Inr (l # ls)))"

text \<open>
  \<open>ParamGrid.__init__\<close>; \<open>itertools.product\<close> is \<^const>\<open>product_lists\<close>: the last
  factor varies fastest, and no factor gives the one empty tuple.
\<close>

definition ParamGrid :: "(real \<times> real) list \<Rightarrow> num_arg \<Rightarrow> error + param_grid" where
  "ParamGrid bounds num =
     (let nums = (case num of Shared n \<Rightarrow> replicate (length bounds) n | PerDim ns \<Rightarrow> ns)
      in bind_err (build_linspaces bounds nums) (\<lambda>ls.
         Inr \<lparr> pg_linspaces = ls, pg_values = ParamIterator (product_lists ls) \<rparr>))"

text \<open>An n-dimensional array: its shape, and its entries in row-major (C) order.\<close>

record ndarray =
  nd_shape :: "nat list"
  nd_data :: "real list"


text \<open>
  \<open>np.meshgrid(*xs)\<close> with the default \<open>indexing='xy'\<close>: for two or more inputs the first
  two axes are swapped, so every output has shape \<open>(n1, n0, n2, ...)\<close> and the \<open>k\<close>-th
  output holds the \<open>k\<close>-th coordinate of every grid point. No input gives the empty list.
\<close>

fun meshgrid_np :: "vec list \<Rightarrow> ndarray list" where
  "meshgrid_np [] = []"
| "meshgrid_np [a] = [\<lparr> nd_shape = [length a], nd_data = a \<rparr>]"
| "meshgrid_np (a # b # rest) =
     (let pts = map (\<lambda>t. (t ! 1) # (t ! 0) # drop 2 t) (product_lists (b # a # rest))
      in map (\<lambda>k. \<lparr> nd_shape = length b # length a # map length rest,
                     nd_data = map (\<lambda>t. t ! k) pts \<rparr>)
             [0..<length (a # b # rest)])"


section \<open>dataset.py: SinglyParameterizedRatioDataset\<close>

text \<open>
  Modelled from the spec: \<open>util.build_simulator\<close> and the distribution library are not in
  the sources at hand. The spec has the simulator as "a function \<open>theta \<rightarrow> distribution\<close>
  where the distribution object supports \<open>sample(n)\<close> (returns n i.i.d. draws) and
  \<open>log_prob(x)\<close> (returns per-example log-density)". \<open>draw d i\<close> is the \<open>i\<close>-th row that
  the one call of \<open>sample\<close> on \<open>d\<close> returns, \<open>log_prob d\<close> the log-density of one row, and a
  \<open>simulator_func\<close> of the model is \<open>\<lambda>theta. build_simulator(simulator_func, theta)\<close>.
\<close>

record dist =
  draw :: "nat \<Rightarrow> vec"
  log_prob :: "vec \<Rightarrow> real"

definition sample :: "dist \<Rightarrow> nat \<Rightarrow> vec list" where
  "sample d n = map (draw d) [0..<n]"

definition log_prob_batch :: "dist \<Rightarrow> vec list \<Rightarrow> real list" where
  "log_prob_batch d rows = map (log_prob d) rows"

text \<open>
  Modelled from the spec: \<open>util.stack_repeat\<close> and \<open>util.concat_repeat\<close> are not in the
  sources at hand. \<open>stack_repeat(v, reps)\<close> is the parameter "broadcast per example":
  \<open>reps\<close> rows \<open>v\<close>. \<open>concat_repeat(arr, reps, axis=0)\<close> is the concatenation of \<open>reps\<close>
  copies of \<open>arr\<close>, which gives \<open>theta_1s\<close> the length of \<open>x\<close> that the spec's length
  invariant asks for.
\<close>

definition stack_repeat :: "'a \<Rightarrow> nat \<Rightarrow> 'a list" where
  "stack_repeat v reps = replicate reps v"

definition concat_repeat :: "'a list \<Rightarrow> nat \<Rightarrow> 'a list" where
  "concat_repeat arr reps = concat (replicate reps arr)"

text \<open>\<open>arr[start:stop]\<close> read, and \<open>arr[start:stop] = vals\<close> for as many \<open>vals\<close> as the
  slice has places.\<close>

definition slice :: "'a list \<Rightarrow> nat \<Rightarrow> nat \<Rightarrow> 'a list" where
  "slice arr start stop = take (stop - start) (drop start arr)"

definition assign_slice :: "'a list \<Rightarrow> nat \<Rightarrow> nat \<Rightarrow> 'a list \<Rightarrow> 'a list" where
  "assign_slice arr start stop vals = take start arr @ vals @ drop stop arr"

text \<open>
  The right-hand side of \<open>theta_1s[start:stop, :] = theta_1\<close>: numpy broadcasts the vector
  to rows of width \<open>d = len(theta_0)\<close>, which needs its length to be \<open>d\<close> or 1, and raises
  \<open>ValueError\<close> otherwise.
\<close>

definition broadcast_row :: "nat \<Rightarrow> vec \<Rightarrow> error + vec" where
  "broadcast_row d v =
     (if length v = d then Inr v
      else if length v = 1 then Inr (replicate d (v ! 0))
      else Inl ValueError)"

text \<open>The arrays that the loop of \<open>__init__\<close> fills.\<close>

record fill_state =
  fs_x1 :: "vec list"
  fs_theta_1s :: "vec list"
  fs_ll0_x0 :: "real list"
  fs_ll0_x1 :: "real list"
  fs_ll1_x0 :: "real list"
  fs_ll1_x1 :: "real list"

text \<open>
  One pass of the loop body, for the pair \<open>(i, theta_1)\<close> of
  \<open>enumerate(theta_1_iterator)\<close>. All simulators of one \<open>simulator_func\<close> draw rows of one
  width, so the assignment to \<open>x1\<close> never broadcasts. The body assigns \<open>ll0_x0\<close> twice
  and \<open>ll1_x1\<close> twice, as the source does; \<open>ll0_x1\<close> and \<open>ll1_x0\<close> are not assigned.
\<close>

definition fill_body ::
  "(vec \<Rightarrow> dist) \<Rightarrow> dist \<Rightarrow> vec list \<Rightarrow> nat \<Rightarrow> nat \<Rightarrow> bool \<Rightarrow> nat \<Rightarrow> vec \<Rightarrow> fill_state
     \<Rightarrow> error + fill_state" where
  "fill_body simulator_func sim0 x0 d n_samples_per_theta include_nllr i theta_1 st =
     (let sim1 = simulator_func theta_1;
          start = i * n_samples_per_theta;
          stop = (i + 1) * n_samples_per_theta;
          x_i = sample sim1 n_samples_per_theta;
          st1 = st\<lparr> fs_x1 := assign_slice (fs_x1 st) start stop (ensure_2d x_i) \<rparr>
      in bind_err (broadcast_row d theta_1) (\<lambda>row.
         let st2 = st1\<lparr> fs_theta_1s :=
                     assign_slice (fs_theta_1s st1) start stop (replicate (stop - start) row) \<rparr>
         in if include_nllr then
              let st3 = st2\<lparr> fs_ll0_x0 := assign_slice (fs_ll0_x0 st2) start stop
                                (log_prob_batch sim0 (slice x0 start stop)) \<rparr>;
                  st4 = st3\<lparr> fs_ll0_x0 := assign_slice (fs_ll0_x0 st3) start stop
                                (log_prob_batch sim0 (slice x0 start stop)) \<rparr>;
                  st5 = st4\<lparr> fs_ll1_x1 := assign_slice (fs_ll1_x1 st4) start stop
                                (log_prob_batch sim1 (slice (fs_x1 st4) start stop)) \<rparr>;
                  st6 = st5\<lparr> fs_ll1_x1 := assign_slice (fs_ll1_x1 st5) start stop
                                (log_prob_batch sim1 (slice (fs_x1 st5) start stop)) \<rparr>
              in Inr st6
            else Inr st2))"

fun fill_loop ::
  "(vec \<Rightarrow> dist) \<Rightarrow> dist \<Rightarrow> vec list \<Rightarrow> nat \<Rightarrow> nat \<Rightarrow> bool \<Rightarrow> (nat \<times> vec) list \<Rightarrow> fill_state
     \<Rightarrow> error + fill_state" where
  "fill_loop simulator_func sim0 x0 d n incl [] st = Inr st"
| "fill_loop simulator_func sim0 x0 d n incl (it # rest) st =
     bind_err (fill_body simulator_func sim0 x0 d n incl (fst it) (snd it) st)
              (fill_loop simulator_func sim0 x0 d n incl rest)"

text \<open>
  \<open>SinglyParameterizedRatioDataset.__init__\<close>, for \<open>theta_0\<close> an array (what
  \<open>ensure_array\<close> makes of a number). Without \<open>include_nllr\<close> the four log-density
  arrays do not exist and the model leaves them empty. \<open>p\<close> is the permutation drawn when
  \<open>do_shuffle\<close> holds.
\<close>

definition SinglyParameterizedRatioDataset ::
  "(vec \<Rightarrow> dist) \<Rightarrow> vec \<Rightarrow> vec list \<Rightarrow> nat \<Rightarrow> bool \<Rightarrow> bool \<Rightarrow> nat list
     \<Rightarrow> error + ratio_dataset" where
  "SinglyParameterizedRatioDataset simulator_func theta_0 theta_1_iterator n_samples_per_theta
       do_shuffle include_nllr p =
     (let sim0 = simulator_func theta_0;
          x0 = ensure_2d (sample sim0 (n_samples_per_theta * length theta_1_iterator));
          y0 = replicate (length x0) (0::real);
          x1 = map (map (\<lambda>_. 0)) x0;
          theta_1s = replicate (length x1) (replicate (length theta_0) 0);
          zs = (if include_nllr then map (\<lambda>_. 0) y0 else []);
          st = \<lparr> fs_x1 = x1, fs_theta_1s = theta_1s, fs_ll0_x0 = zs, fs_ll0_x1 = zs,
                 fs_ll1_x0 = zs, fs_ll1_x1 = zs \<rparr>
      in bind_err (fill_loop simulator_func sim0 x0 (length theta_0) n_samples_per_theta
                     include_nllr (enumerate 0 theta_1_iterator) st) (\<lambda>st'.
         let y1 = map (\<lambda>_. 1) y0;
             xs = x0 @ fs_x1 st';
             ys = y0 @ y1;
             theta_0s = stack_repeat theta_0 (length xs);
             theta_1s' = concat_repeat (fs_theta_1s st') 2;
             nllr = (if include_nllr then
                       let ll0 = fs_ll0_x0 st' @ fs_ll0_x1 st';
                           ll1 = fs_ll1_x0 st' @ fs_ll1_x1 st'
                       in Some (map2 (\<lambda>a b. - (a - b)) ll1 ll0)
                     else None)
         in RatioDataset xs theta_0s theta_1s' (Some ys) nllr do_shuffle p))"

text \<open>
  What the spec asks of \<open>nllr\<close>: \<open>-(log p1(x) - log p0(x))\<close> for the features \<open>x\<close> and the
  alternate parameter \<open>theta_1\<close> of each example.
\<close>

definition nllr_spec :: "(vec \<Rightarrow> dist) \<Rightarrow> vec \<Rightarrow> ratio_dataset \<Rightarrow> real list" where
  "nllr_spec simulator_func theta_0 self =
     map2 (\<lambda>xi t1. - (log_prob (simulator_func t1) xi - log_prob (simulator_func theta_0) xi))
          (ds_x self) (ds_theta_1s self)"

section \<open>active_learner.py: ActiveLearner\<close>

text \<open>
  The state of the learner that \<open>step\<close> reads and writes: \<open>all_thetas\<close> (the array of
  \<open>param_grid\<close>), \<open>_trialed_mask\<close> and \<open>dataset\<close>.
\<close>

record active_learner =
  al_all_thetas :: "vec list"
  al_trialed_mask :: "bool list"
  al_dataset :: ratio_dataset

text \<open>
  The trialed mask of \<open>__init__\<close>:
  \<open>np.array([np.array(values) == theta for theta in theta_1_iterator])
      .all(axis=2).sum(axis=0).astype(bool)\<close>,
  for parameter vectors of one width (the spec's \<open>ParamIterator\<close>: "fixed-width"), so that
  \<open>==\<close> compares entry by entry. With no sampled vector or no grid point the stacked
  array has fewer than three axes and \<open>.all(axis=2)\<close> raises.
\<close>

definition eq_stack :: "vec list \<Rightarrow> vec list \<Rightarrow> bool list list list" where
  "eq_stack grid thetas = map (\<lambda>theta. map (\<lambda>g. map2 (\<lambda>a b. a = b) g theta) grid) thetas"

definition all_axis2 :: "bool list list list \<Rightarrow> bool list list" where
  "all_axis2 a = map (map (\<lambda>row. \<forall>b\<in>set row. b)) a"

definition sum_axis0 :: "nat \<Rightarrow> bool list list \<Rightarrow> nat list" where
  "sum_axis0 n a = map (\<lambda>j. sum_list (map (\<lambda>row. if row ! j then 1 else 0) a)) [0..<n]"

definition trialed_mask_init :: "vec list \<Rightarrow> vec list \<Rightarrow> error + bool list" where
  "trialed_mask_init grid thetas =
     (if thetas = [] \<or> grid = [] then Inl AxisError
      else Inr (map (\<lambda>c. c \<noteq> 0) (sum_axis0 (length grid) (all_axis2 (eq_stack grid thetas)))))"

















text \<open>
  What one call of \<open>step\<close> gets from outside: the index that \<open>choose_next_theta_index\<close>
  returns (or its exception), the dataset that \<open>from_simulator\<close> builds at the chosen
  parameter, the permutation of the reshuffle, and the exception, if any, of the model fit
  and evaluation of lines 149 to 160, which touch neither the dataset nor the mask.
\<close>

record step_env =
  env_choice :: "error + nat"
  env_new_ds :: "vec \<Rightarrow> error + ratio_dataset"
  env_perm :: "nat list"
  env_fit :: "error option"

text \<open>\<open>ActiveLearner.step\<close>.\<close>

definition step :: "step_env \<Rightarrow> active_learner \<Rightarrow> error + active_learner" where
  "step env self =
     bind_err (env_choice env) (\<lambda>next_theta_index.
     bind_err (getitem (al_all_thetas self) next_theta_index) (\<lambda>next_theta.
     bind_err (env_new_ds env next_theta) (\<lambda>new_ds.
     bind_err (iadd (al_dataset self) new_ds) (\<lambda>ds.
     bind_err (shuffle (env_perm env) ds) (\<lambda>ds'.
     bind_err (case env_fit env of Some e \<Rightarrow> Inl e | None \<Rightarrow> Inr ()) (\<lambda>_.
     bind_err (getitem (al_trialed_mask self) next_theta_index) (\<lambda>m.
     if m \<noteq> False then Inl AssertionError
     else Inr (self\<lparr> al_dataset := ds',
                     al_trialed_mask := (al_trialed_mask self)[next_theta_index := True] \<rparr>))))))))"

text \<open>\<open>ActiveLearner.fit\<close>: one \<open>step\<close> per iteration, each with its own outside world.\<close>

fun fit :: "step_env list \<Rightarrow> active_learner \<Rightarrow> error + active_learner" where
  "fit [] self = Inr self"
| "fit (env # envs) self = bind_err (step env self) (fit envs)"

text \<open>The number of trialed grid points.\<close>

definition n_trialed :: "bool list \<Rightarrow> nat" where
  "n_trialed msk = length (filter (\<lambda>m. m) msk)"

section \<open>ratio_model.py: param_scan\<close>

















section \<open>Example inputs\<close>

definition ex_ds :: ratio_dataset where
  "ex_ds = \<lparr> ds_x = [[1], [2]], ds_theta_0s = [[0], [0]], ds_theta_1s = [[3], [3]],
             ds_y = Some [0, 1], ds_nllr = None \<rparr>"

definition ex_new_ds :: ratio_dataset where
  "ex_new_ds = \<lparr> ds_x = [[5], [6]], ds_theta_0s = [[0], [0]], ds_theta_1s = [[4], [4]],
                 ds_y = Some [0, 1], ds_nllr = None \<rparr>"

definition ex_learner :: active_learner where
  "ex_learner = \<lparr> al_all_thetas = [[3], [4]], al_trialed_mask = [True, False],
                  al_dataset = ex_ds \<rparr>"

definition ex_env :: "nat \<Rightarrow> step_env" where
  "ex_env i = \<lparr> env_choice = Inr i, env_new_ds = (\<lambda>theta. Inr ex_new_ds),
                env_perm = [3, 2, 1, 0], env_fit = None \<rparr>"

text \<open>
  A simulator for the examples: the normal distribution with mean \<open>theta[0]\<close> and unit
  variance, whose \<open>i\<close>-th draw is taken to be \<open>theta[0] + i\<close>.
\<close>

definition ex_simulator :: "vec \<Rightarrow> dist" where
  "ex_simulator theta =
     \<lparr> draw = (\<lambda>i. [theta ! 0 + real i]),
       log_prob = (\<lambda>xi. - ((xi ! 0 - theta ! 0) * (xi ! 0 - theta ! 0)) / 2 - ln (sqrt (2 * pi))) \<rparr>"

definition ex_nllr_ds :: ratio_dataset where
  "ex_nllr_ds = \<lparr> ds_x = [[0], [1]], ds_theta_0s = [[0], [0]], ds_theta_1s = [[1], [1]],
                  ds_y = Some [0, 1],
                  ds_nllr = Some [- ln (sqrt (2 * pi)), ln (sqrt (2 * pi))] \<rparr>"

definition ex_sp_ds :: ratio_dataset where
  "ex_sp_ds = \<lparr> ds_x = [[0], [1], [2], [3], [1], [2], [3], [4]],
                ds_theta_0s = [[0], [0], [0], [0], [0], [0], [0], [0]],
                ds_theta_1s = [[1], [1], [3], [3], [1], [1], [3], [3]],
                ds_y = Some [0, 0, 0, 0, 1, 1, 1, 1], ds_nllr = None \<rparr>"








section \<open>Auxiliary facts\<close>

lemma bind_err_Inr_iff:
  "bind_err m f = Inr r \<longleftrightarrow> (\<exists>v. m = Inr v \<and> f v = Inr r)"
  by (cases m) (simp_all add: bind_err_def)

lemma bind_err_Inr [simp]: "bind_err (Inr v) f = f v"
  by (simp add: bind_err_def)

lemma bind_err_Inl [simp]: "bind_err (Inl e) f = Inl e"
  by (simp add: bind_err_def)

lemma getitem_Inr_iff: "getitem vals i = Inr v \<longleftrightarrow> i < length vals \<and> v = vals ! i"
  by (auto simp: getitem_def)

lemma perm_length: "mset p = mset [0..<n] \<Longrightarrow> length p = n"
  by (metis length_upt mset_eq_length minus_nat.diff_0)

lemma perm_set: "mset p = mset [0..<n] \<Longrightarrow> set p = {0..<n}"
  by (metis set_mset_mset set_upt)

lemma mset_map_perm:
  assumes "mset p = mset [0..<n]"
  shows "mset (map f p) = mset (map f [0..<n])"
proof -
  have "mset (map f p) = image_mset f (mset p)"
    by simp
  also have "\<dots> = mset (map f [0..<n])"
    using assms by simp
  finally show ?thesis .
qed

subsection \<open>The length check of the constructor\<close>

lemma card_set_lens_one:
  "card (set (a # b # c # rest)) = 1 \<longleftrightarrow> (b = a \<and> c = a \<and> (\<forall>l\<in>set rest. l = a))"
proof
  assume h: "card (set (a # b # c # rest)) = 1"
  then obtain z where z: "set (a # b # c # rest) = {z}"
    by (auto simp: card_1_singleton_iff)
  then have "a = z" by auto
  with z show "b = a \<and> c = a \<and> (\<forall>l\<in>set rest. l = a)" by auto
next
  assume "b = a \<and> c = a \<and> (\<forall>l\<in>set rest. l = a)"
  then have "set (a # b # c # rest) = {a}" by auto
  show "card (set (a # b # c # rest)) = 1" unfolding \<open>set (a # b # c # rest) = {a}\<close> by simp
qed

lemma arr_lens_one:
  "card (set (arr_lens x0 t0 t1 y0 n0)) = 1 \<longleftrightarrow>
     same_lengths \<lparr> ds_x = x0, ds_theta_0s = t0, ds_theta_1s = t1, ds_y = y0, ds_nllr = n0 \<rparr>"
  unfolding arr_lens_def append_Cons append_Nil card_set_lens_one
  by (auto simp: same_lengths_def ds_len_def split: option.splits)

subsection \<open>Shuffling\<close>

lemma take_idx_Inr:
  "\<forall>i\<in>set p. i < length arr \<Longrightarrow> take_idx arr p = Inr (map (\<lambda>i. arr ! i) p)"
  by (simp add: take_idx_def)

lemma shuffle_Inr:
  assumes "same_lengths self" and "\<forall>i\<in>set p. i < ds_len self"
  shows "shuffle p self =
     Inr \<lparr> ds_x = map (\<lambda>i. ds_x self ! i) p,
           ds_theta_0s = map (\<lambda>i. ds_theta_0s self ! i) p,
           ds_theta_1s = map (\<lambda>i. ds_theta_1s self ! i) p,
           ds_y = map_option (\<lambda>arr. map (\<lambda>i. arr ! i) p) (ds_y self),
           ds_nllr = map_option (\<lambda>arr. map (\<lambda>i. arr ! i) p) (ds_nllr self) \<rparr>"
  using assms
  by (cases "ds_y self"; cases "ds_nllr self")
     (simp_all add: shuffle_def same_lengths_def ds_len_def take_idx_Inr take_idx_opt_def)

lemma shuffle_Inr_D:
  assumes "shuffle p self = Inr self'"
  shows "length (ds_x self') = length p \<and> same_lengths self'"
  using assms
  by (auto simp: shuffle_def take_idx_def take_idx_opt_def bind_err_def same_lengths_def ds_len_def
           split: if_splits option.splits sum.splits)

lemma RatioDataset_same_lengths:
  assumes r: "RatioDataset x0 t0 t1 y0 n0 do_shuffle q = Inr self"
  shows "same_lengths self"
proof (cases do_shuffle)
  case True
  with r have "shuffle q \<lparr> ds_x = x0, ds_theta_0s = t0, ds_theta_1s = t1,
                           ds_y = y0, ds_nllr = n0 \<rparr> = Inr self"
    by (simp add: RatioDataset_def Let_def ensure_2d_def split: if_splits)
  then show ?thesis by (simp add: shuffle_Inr_D)
next
  case False
  have c: "card (set (arr_lens x0 t0 t1 y0 n0)) = 1"
    using r by (simp add: RatioDataset_def Let_def ensure_2d_def split: if_splits)
  have s: "self = \<lparr> ds_x = x0, ds_theta_0s = t0, ds_theta_1s = t1, ds_y = y0, ds_nllr = n0 \<rparr>"
    using r False by (simp add: RatioDataset_def Let_def ensure_2d_def split: if_splits)
  from c [unfolded arr_lens_one] show ?thesis
    unfolding s .
qed

lemma example_at_shuffle:
  assumes "shuffle p self = Inr self'" and "i < length p"
  shows "example_at self' i = example_at self (p ! i)"
  using assms
  by (auto simp: shuffle_def take_idx_def take_idx_opt_def bind_err_def example_at_def
           split: if_splits option.splits sum.splits)

lemma examples_shuffle:
  assumes s: "shuffle p self = Inr self'"
  shows "examples self' = map (example_at self) p"
proof -
  have "examples self' = map (\<lambda>i. example_at self (p ! i)) [0..<length p]"
    using s by (simp add: examples_def ds_len_def shuffle_Inr_D example_at_shuffle)
  also have "\<dots> = map (example_at self) (map (\<lambda>i. p ! i) [0..<length p])"
    by simp
  also have "map (\<lambda>i. p ! i) [0..<length p] = p"
    by (rule map_nth)
  finally show ?thesis .
qed

subsection \<open>Concatenation\<close>

lemma concat_opt_Inr_iff:
  "concat_opt a b = Inr c \<longleftrightarrow>
     (a = None \<and> b = None \<and> c = None) \<or> (\<exists>u v. a = Some u \<and> b = Some v \<and> c = Some (u @ v))"
  by (auto simp: concat_opt_def split: option.splits)

lemma iadd_Inr_D:
  assumes "iadd a b = Inr c"
  shows "ds_x c = ds_x a @ ds_x b" and "ds_theta_0s c = ds_theta_0s a @ ds_theta_0s b"
    and "ds_theta_1s c = ds_theta_1s a @ ds_theta_1s b"
    and "concat_opt (ds_y a) (ds_y b) = Inr (ds_y c)"
    and "concat_opt (ds_nllr a) (ds_nllr b) = Inr (ds_nllr c)"
  using assms by (auto simp: iadd_def bind_err_Inr_iff)

lemma iadd_same_lengths:
  assumes c: "iadd a b = Inr c" and a: "same_lengths a" and b: "same_lengths b"
  shows "same_lengths c"
  using iadd_Inr_D [OF c] a b
  by (auto simp: same_lengths_def ds_len_def concat_opt_Inr_iff)

lemma example_at_iadd_left:
  assumes c: "iadd a b = Inr c" and a: "same_lengths a" and i: "i < ds_len a"
  shows "example_at c i = example_at a i"
  using iadd_Inr_D [OF c] a i
  by (auto simp: example_at_def same_lengths_def ds_len_def concat_opt_Inr_iff nth_append)

lemma example_at_iadd_right:
  assumes c: "iadd a b = Inr c" and a: "same_lengths a"
  shows "example_at c (ds_len a + i) = example_at b i"
  using iadd_Inr_D [OF c] a
  by (auto simp: example_at_def same_lengths_def ds_len_def concat_opt_Inr_iff nth_append)

lemma examples_iadd:
  assumes c: "iadd a b = Inr c" and a: "same_lengths a"
  shows "examples c = examples a @ examples b"
proof -
  have l: "ds_len c = ds_len a + ds_len b"
    using iadd_Inr_D(1) [OF c] by (simp add: ds_len_def)
  have "[0..<ds_len a + ds_len b] = [0..<ds_len a] @ map (\<lambda>i. ds_len a + i) [0..<ds_len b]"
    by (simp add: upt_add_eq_append [of 0, simplified] map_add_upt add.commute)
  then have "examples c = map (example_at c) [0..<ds_len a]
                        @ map (\<lambda>i. example_at c (ds_len a + i)) [0..<ds_len b]"
    by (simp add: examples_def l comp_def)
  also have "map (example_at c) [0..<ds_len a] = examples a"
    unfolding examples_def using example_at_iadd_left [OF c a] by simp
  also have "map (\<lambda>i. example_at c (ds_len a + i)) [0..<ds_len b] = examples b"
    unfolding examples_def using example_at_iadd_right [OF c a] by simp
  finally show ?thesis .
qed

lemma iadd_succeeds:
  assumes "(ds_y a = None) = (ds_y b = None)" and "(ds_nllr a = None) = (ds_nllr b = None)"
  shows "\<exists>c. iadd a b = Inr c"
  using assms
  by (cases "ds_y a"; cases "ds_y b"; cases "ds_nllr a"; cases "ds_nllr b")
     (simp_all add: iadd_def concat_opt_def)

subsection \<open>One step of the learner\<close>

lemma step_Inr_D:
  assumes "step env self = Inr self'"
  shows "\<exists>i. env_choice env = Inr i \<and> i < length (al_trialed_mask self) \<and>
             \<not> al_trialed_mask self ! i \<and>
             al_trialed_mask self' = (al_trialed_mask self)[i := True] \<and>
             al_all_thetas self' = al_all_thetas self"
  using assms unfolding step_def bind_err_Inr_iff getitem_Inr_iff
  by (auto split: if_splits)

lemma fit_mask:
  "fit envs self = Inr self' \<Longrightarrow>
     length (al_trialed_mask self') = length (al_trialed_mask self) \<and>
     (\<forall>i<length (al_trialed_mask self).
         al_trialed_mask self ! i \<longrightarrow> al_trialed_mask self' ! i) \<and>
     card {i. i < length (al_trialed_mask self) \<and> al_trialed_mask self' ! i
              \<and> \<not> al_trialed_mask self ! i} = length envs"
proof (induction envs arbitrary: self)
  case Nil
  then show ?case by simp
next
  case (Cons env envs)
  from Cons.prems obtain s1 where s1: "step env self = Inr s1" and f: "fit envs s1 = Inr self'"
    by (auto simp: bind_err_Inr_iff)
  let ?m = "al_trialed_mask self" and ?m1 = "al_trialed_mask s1" and ?m' = "al_trialed_mask self'"
  from step_Inr_D [OF s1] obtain i where i: "i < length ?m" "\<not> ?m ! i" "?m1 = ?m[i := True]"
    by blast
  from Cons.IH [OF f] have len: "length ?m' = length ?m1"
    and mono: "\<forall>j<length ?m1. ?m1 ! j \<longrightarrow> ?m' ! j"
    and c: "card {j. j < length ?m1 \<and> ?m' ! j \<and> \<not> ?m1 ! j} = length envs"
    by auto
  have l1: "length ?m1 = length ?m" using i by simp
  have mi: "?m' ! i" using mono i by simp
  have eq: "{j. j < length ?m \<and> ?m' ! j \<and> \<not> ?m ! j}
          = insert i {j. j < length ?m1 \<and> ?m' ! j \<and> \<not> ?m1 ! j}"
    using i mi by (auto simp: nth_list_update)
  have notin: "i \<notin> {j. j < length ?m1 \<and> ?m' ! j \<and> \<not> ?m1 ! j}"
    using i by simp
  have fin: "finite {j. j < length ?m1 \<and> ?m' ! j \<and> \<not> ?m1 ! j}" by simp
  have "card {j. j < length ?m \<and> ?m' ! j \<and> \<not> ?m ! j} = Suc (length envs)"
    unfolding eq using c card_insert_disjoint [OF fin notin] by simp
  moreover have "\<forall>j<length ?m. ?m ! j \<longrightarrow> ?m' ! j"
    using mono i by (auto simp: nth_list_update)
  ultimately show ?case using len l1 by simp
qed

lemma step_trialed_fails:
  assumes "env_choice env = Inr i" and "i < length (al_trialed_mask self)"
    and "al_trialed_mask self ! i"
  shows "\<exists>e. step env self = Inl e"
proof (cases "step env self")
  case (Inl e)
  then show ?thesis by simp
next
  case (Inr s1)
  from step_Inr_D [OF Inr] assms show ?thesis by auto
qed

lemma step_trialed_assertion:
  assumes "env_choice env = Inr i" and "al_trialed_mask self ! i"
    and "getitem (al_all_thetas self) i = Inr th" and "env_new_ds env th = Inr nd"
    and "iadd (al_dataset self) nd = Inr d" and "shuffle (env_perm env) d = Inr d'"
    and "env_fit env = None" and "i < length (al_trialed_mask self)"
  shows "step env self = Inl AssertionError"
  using assms by (simp add: step_def getitem_def)

lemma n_trialed_update:
  "i < length m \<Longrightarrow> \<not> m ! i \<Longrightarrow> n_trialed (m[i := True]) = Suc (n_trialed m)"
proof (induction m arbitrary: i)
  case Nil
  then show ?case by simp
next
  case (Cons b m)
  then show ?case by (cases i) (auto simp: n_trialed_def)
qed

lemma fit_n_trialed:
  "fit envs self = Inr self' \<Longrightarrow>
     n_trialed (al_trialed_mask self') = n_trialed (al_trialed_mask self) + length envs"
proof (induction envs arbitrary: self)
  case Nil
  then show ?case by simp
next
  case (Cons env envs)
  from Cons.prems obtain s1 where s1: "step env self = Inr s1" and f: "fit envs s1 = Inr self'"
    by (auto simp: bind_err_Inr_iff)
  from step_Inr_D [OF s1] obtain i where i: "i < length (al_trialed_mask self)"
      "\<not> al_trialed_mask self ! i" "al_trialed_mask s1 = (al_trialed_mask self)[i := True]"
    by blast
  show ?case
    using Cons.IH [OF f] i by (simp add: n_trialed_update)
qed

lemma ex_iadd:
  "iadd ex_ds ex_new_ds =
     Inr \<lparr> ds_x = [[1], [2], [5], [6]], ds_theta_0s = [[0], [0], [0], [0]],
           ds_theta_1s = [[3], [3], [4], [4]], ds_y = Some [0, 1, 0, 1], ds_nllr = None \<rparr>"
  by (simp add: iadd_def concat_opt_def ex_ds_def ex_new_ds_def)

lemma ex_shuffle:
  "shuffle [3, 2, 1, 0]
     \<lparr> ds_x = [[1], [2], [5], [6]], ds_theta_0s = [[0], [0], [0], [0]],
       ds_theta_1s = [[3], [3], [4], [4]], ds_y = Some [0, 1, 0, 1], ds_nllr = None \<rparr> =
     Inr \<lparr> ds_x = [[6], [5], [2], [1]], ds_theta_0s = [[0], [0], [0], [0]],
           ds_theta_1s = [[4], [4], [3], [3]], ds_y = Some [1, 0, 1, 0], ds_nllr = None \<rparr>"
  by (simp add: shuffle_def take_idx_def take_idx_opt_def)

lemma ex_step_ok:
  "step (ex_env 1) ex_learner =
     Inr \<lparr> al_all_thetas = [[3], [4]], al_trialed_mask = [True, True],
           al_dataset = \<lparr> ds_x = [[6], [5], [2], [1]], ds_theta_0s = [[0], [0], [0], [0]],
              ds_theta_1s = [[4], [4], [3], [3]], ds_y = Some [1, 0, 1, 0], ds_nllr = None \<rparr> \<rparr>"
  by (simp add: step_def ex_env_def ex_learner_def getitem_def ex_iadd ex_shuffle [simplified])

subsection \<open>The first best entry\<close>





subsection \<open>The trialed mask and the parameter grid\<close>

lemma all_map2_eq:
  "length g = length t \<Longrightarrow> (\<forall>b\<in>set (map2 (\<lambda>a b. a = b) g t). b) \<longleftrightarrow> g = t"
  by (induction g t rule: list_induct2) auto

lemma sum_list_indicator_pos:
  "sum_list (map (\<lambda>r. if P r then 1 else 0) rows) \<noteq> (0::nat) \<longleftrightarrow> (\<exists>r\<in>set rows. P r)"
  by (induction rows) auto

lemma mask_entry:
  assumes "j < length grid"
  shows "map (\<lambda>c. c \<noteq> 0) (sum_axis0 (length grid) (all_axis2 (eq_stack grid thetas))) ! j
           \<longleftrightarrow> (\<exists>t\<in>set thetas. \<forall>b\<in>set (map2 (\<lambda>a b. a = b) (grid ! j) t). b)"
proof -
  define P where "P t \<longleftrightarrow> (\<forall>b\<in>set (map2 (\<lambda>a b. a = b) (grid ! j) t). b)" for t
  have "map (\<lambda>row. if row ! j then 1 else (0::nat)) (all_axis2 (eq_stack grid thetas))
          = map (\<lambda>t. if P t then 1 else 0) thetas"
    using assms unfolding all_axis2_def eq_stack_def P_def by (simp add: comp_def del: set_zip)
  then have "sum_axis0 (length grid) (all_axis2 (eq_stack grid thetas)) ! j
          = sum_list (map (\<lambda>t. if P t then 1 else 0) thetas)"
    using assms unfolding sum_axis0_def by simp
  moreover have "length (sum_axis0 (length grid) (all_axis2 (eq_stack grid thetas))) = length grid"
    by (simp add: sum_axis0_def)
  ultimately have "map (\<lambda>c. c \<noteq> 0) (sum_axis0 (length grid) (all_axis2 (eq_stack grid thetas))) ! j
           \<longleftrightarrow> sum_list (map (\<lambda>t. if P t then 1 else 0) thetas) \<noteq> (0::nat)"
    using assms by (simp only: nth_map)
  also have "\<dots> \<longleftrightarrow> (\<exists>t\<in>set thetas. P t)"
    by (rule sum_list_indicator_pos)
  finally show ?thesis unfolding P_def .
qed

lemma trialed_mask_init_Inr:
  assumes "thetas \<noteq> []" and "grid \<noteq> []"
    and "\<forall>g\<in>set grid. length g = d" and "\<forall>t\<in>set thetas. length t = d"
  shows "\<exists>m. trialed_mask_init grid thetas = Inr m \<and> length m = length grid \<and>
             (\<forall>j<length grid. m ! j \<longleftrightarrow> (\<exists>t\<in>set thetas. grid ! j = t))"
proof -
  define m where "m = map (\<lambda>c. c \<noteq> 0) (sum_axis0 (length grid) (all_axis2 (eq_stack grid thetas)))"
  have r: "trialed_mask_init grid thetas = Inr m"
    using assms(1,2) by (simp add: trialed_mask_init_def m_def)
  have l: "length m = length grid"
    by (simp add: m_def sum_axis0_def)
  have e: "m ! j \<longleftrightarrow> (\<exists>t\<in>set thetas. grid ! j = t)" if j: "j < length grid" for j
  proof -
    have "m ! j \<longleftrightarrow> (\<exists>t\<in>set thetas. \<forall>b\<in>set (map2 (\<lambda>a b. a = b) (grid ! j) t). b)"
      unfolding m_def using j by (rule mask_entry)
    also have "\<dots> \<longleftrightarrow> (\<exists>t\<in>set thetas. grid ! j = t)"
    proof -
      have "length (grid ! j) = length t" if "t \<in> set thetas" for t
        using assms(3,4) j that by simp
      then show ?thesis using all_map2_eq by blast
    qed
    finally show ?thesis .
  qed
  from r l e show ?thesis by blast
qed

lemma ex_grid:
  "ParamGrid [(0, 1)] (Shared 5) =
     Inr \<lparr> pg_linspaces = [[0, 1/4, 1/2, 3/4, 1]],
           pg_values = [[0], [1/4], [1/2], [3/4], [1]] \<rparr>"
  by (simp add: ParamGrid_def linspace_def ParamIterator_def upt_rec numeral_eq_Suc)

lemma ex_mask:
  "trialed_mask_init [[0], [1/4], [1/2], [3/4], [1]] (SingleParamIterator [1/2] 1)
     = Inr [False, False, True, False, False]"
  by (simp add: trialed_mask_init_def SingleParamIterator_def ParamIterator_def sum_axis0_def
                all_axis2_def eq_stack_def upt_rec)

lemma length_product_lists: "length (product_lists xss) = prod_list (map length xss)"
  by (induction xss) (simp_all add: length_concat comp_def sum_list_triv)

lemma concat_map_nth:
  assumes "\<forall>x\<in>set xs. length (f x) = n" and "i < length xs" and "j < n"
  shows "concat (map f xs) ! (i * n + j) = f (xs ! i) ! j"
  using assms
proof (induction xs arbitrary: i)
  case Nil
  then show ?case by simp
next
  case (Cons x xs)
  show ?case
  proof (cases i)
    case 0
    with Cons.prems show ?thesis by (simp add: nth_append)
  next
    case (Suc i')
    with Cons.prems have "concat (map f xs) ! (i' * n + j) = f (xs ! i') ! j"
      using Cons.IH [of i'] by simp
    with Suc Cons.prems show ?thesis by (simp add: nth_append)
  qed
qed

lemma product_lists_nth:
  assumes "i < length xs" and "j < length (product_lists xss)"
  shows "product_lists (xs # xss) ! (i * length (product_lists xss) + j)
           = xs ! i # product_lists xss ! j"
proof -
  have "concat (map (\<lambda>x. map (Cons x) (product_lists xss)) xs) ! (i * length (product_lists xss) + j)
          = map (Cons (xs ! i)) (product_lists xss) ! j"
    using assms by (intro concat_map_nth) simp_all
  then show ?thesis using assms by simp
qed

lemma linspace_Inr:
  assumes "linspace start stop num = Inr l"
  shows "0 \<le> num \<and> length l = nat num \<and>
         (\<forall>i<nat num. l ! i = (if num = 1 then start
                               else start + real i * ((stop - start) / real (nat num - 1))))"
proof -
  from assms have n0: "0 \<le> num" by (auto simp: linspace_def split: if_splits)
  define n where "n = nat num"
  define ys where "ys = map (\<lambda>i. (if n - 1 > 0 then real i * ((stop - start) / real (n - 1))
                                   else real i * (stop - start)) + start) [0..<n]"
  have nn: "\<not> num < 0" using n0 by simp
  have "linspace start stop num = Inr (if n > 1 then ys[n - 1 := stop] else ys)"
    unfolding linspace_def Let_def ys_def n_def by (simp only: nn if_False)
  with assms have l: "l = (if n > 1 then ys[n - 1 := stop] else ys)"
    by simp
  have len: "length l = n" by (simp add: l ys_def)
  have nth: "l ! i = (if num = 1 then start else start + real i * ((stop - start) / real (n - 1)))"
    if i: "i < n" for i
  proof (cases "n > 1")
    case True
    then have num: "num \<noteq> 1" by (simp add: n_def)
    have last: "real (n - 1) * ((stop - start) / real (n - 1)) + start = stop"
      using True by simp
    show ?thesis
    proof (cases "i = n - 1")
      case True
      with \<open>n > 1\<close> i last num show ?thesis by (simp add: l ys_def add.commute)
    next
      case False
      with \<open>n > 1\<close> i num show ?thesis by (simp add: l ys_def)
    qed
  next
    case False
    with i have "n = 1" "i = 0" by simp_all
    then have "num = 1" using n0 by (simp add: n_def)
    with \<open>n = 1\<close> \<open>i = 0\<close> show ?thesis by (simp add: l ys_def)
  qed
  from n0 len nth show ?thesis by (simp add: n_def)
qed

lemma build_linspaces_Inr:
  "build_linspaces bs ns = Inr ls \<Longrightarrow>
     length ls = length bs \<and> length bs \<le> length ns \<and>
     (\<forall>k<length bs. linspace (fst (bs ! k)) (snd (bs ! k)) (ns ! k) = Inr (ls ! k))"
proof (induction bs ns arbitrary: ls rule: build_linspaces.induct)
  case (1 nums)
  then show ?case by simp
next
  case (2 b bs)
  then show ?case by simp
next
  case (3 b bs n ns)
  from "3.prems" obtain l ls' where l: "linspace (fst b) (snd b) n = Inr l"
    and r: "build_linspaces bs ns = Inr ls'" and ls: "ls = l # ls'"
    by (auto simp: bind_err_Inr_iff)
  from "3.IH" [OF r] l ls show ?case
    by (auto simp: nth_Cons split: nat.splits)
qed


lemma ParamGrid_Inr_D:
  assumes "ParamGrid bounds num = Inr g"
  shows "build_linspaces bounds (case num of Shared n \<Rightarrow> replicate (length bounds) n | PerDim ns \<Rightarrow> ns)
           = Inr (pg_linspaces g)"
    and "pg_values g = product_lists (pg_linspaces g)"
  using assms by (auto simp: ParamGrid_def Let_def bind_err_Inr_iff ParamIterator_def)

lemma ex_grid2_value:
  "ParamGrid [(0, 1), (0, 2)] (PerDim [2, 3]) =
     Inr \<lparr> pg_linspaces = [[0, 1], [0, 1, 2]],
           pg_values = [[0, 0], [0, 1], [0, 2], [1, 0], [1, 1], [1, 2]] \<rparr>"
  by (simp add: ParamGrid_def linspace_def ParamIterator_def upt_rec numeral_eq_Suc)

subsection \<open>The loop of the dataset constructor\<close>

lemma assign_slice_block:
  assumes "length pre = i * n"
  shows "assign_slice (pre @ suf) (i * n) ((i + 1) * n) vals = (pre @ vals) @ drop n suf"
  using assms by (simp add: assign_slice_def)

lemma slice_block:
  assumes "length pre = i * n" and "length vals = n"
  shows "slice ((pre @ vals) @ suf) (i * n) ((i + 1) * n) = vals"
  using assms by (simp add: slice_def)

lemma length_sample: "length (sample d n) = n"
  by (simp add: sample_def)

lemma fill_body_step:
  assumes b: "broadcast_row d theta = Inr row"
    and l: "length pX = i * n" "length pT = i * n" "length pA = i * n" "length pB = i * n"
    and x0: "(i + 1) * n \<le> length x0"
  shows "fill_body f sim0 x0 d n incl i theta
           \<lparr> fs_x1 = pX @ sX, fs_theta_1s = pT @ sT,
             fs_ll0_x0 = (if incl then pA @ sA else zA), fs_ll0_x1 = u, fs_ll1_x0 = v,
             fs_ll1_x1 = (if incl then pB @ sB else zB) \<rparr>
         = Inr \<lparr> fs_x1 = (pX @ sample (f theta) n) @ drop n sX,
                 fs_theta_1s = (pT @ replicate n row) @ drop n sT,
                 fs_ll0_x0 = (if incl then (pA @ map (log_prob sim0) (slice x0 (i * n) ((i + 1) * n)))
                                           @ drop n sA else zA),
                 fs_ll0_x1 = u, fs_ll1_x0 = v,
                 fs_ll1_x1 = (if incl then (pB @ map (log_prob (f theta)) (sample (f theta) n))
                                           @ drop n sB else zB) \<rparr>"
proof -
  have len: "length (map (log_prob sim0) (slice x0 (i * n) ((i + 1) * n))) = n"
    using x0 by (simp add: slice_def)
  have len': "length (map (log_prob (f theta)) (sample (f theta) n)) = n"
    by (simp add: length_sample)
  have a1: "assign_slice (pA @ sA) (i * n) ((i + 1) * n) vals = (pA @ vals) @ drop n sA" for vals
    using l(3) by (rule assign_slice_block)
  have a2: "assign_slice ((pA @ vals) @ drop n sA) (i * n) ((i + 1) * n) vals
              = (pA @ vals) @ drop n sA" if "length vals = n" for vals :: "real list"
    using l(3) that by (simp add: assign_slice_def)
  have b1: "assign_slice (pB @ sB) (i * n) ((i + 1) * n) vals = (pB @ vals) @ drop n sB" for vals
    using l(4) by (rule assign_slice_block)
  have b2: "assign_slice ((pB @ vals) @ drop n sB) (i * n) ((i + 1) * n) vals
              = (pB @ vals) @ drop n sB" if "length vals = n" for vals :: "real list"
    using l(4) that by (simp add: assign_slice_def)
  have x: "assign_slice (pX @ sX) (i * n) ((i + 1) * n) (sample (f theta) n)
             = (pX @ sample (f theta) n) @ drop n sX"
    using l(1) by (rule assign_slice_block)
  have sx: "slice ((pX @ sample (f theta) n) @ drop n sX) (i * n) ((i + 1) * n) = sample (f theta) n"
    using l(1) length_sample by (rule slice_block)
  have t: "assign_slice (pT @ sT) (i * n) ((i + 1) * n) (replicate ((i + 1) * n - i * n) row)
             = (pT @ replicate n row) @ drop n sT"
    using assign_slice_block [OF l(2), of sT "replicate n row"] by simp
  show ?thesis
    unfolding fill_body_def Let_def
    by (simp only: b bind_err_Inr ensure_2d_def fill_state.simps x t sx a1 a2 [OF len]
                   a2 [OF len'] b1 b2 [OF len'] log_prob_batch_def split: if_split)
       (simp add: x t sx a1 a2 b1 b2)
qed


lemma slice_append:
  assumes "a \<le> b" and "b \<le> c"
  shows "slice xs a b @ slice xs b c = slice xs a c"
proof -
  have "take (b - a) (drop a xs) @ take (c - b) (drop (b - a) (drop a xs)) = take (c - a) (drop a xs)"
    using assms by (metis Nat.add_diff_assoc2 le_add_diff_inverse2 take_add diff_diff_cancel
                          diff_le_self add.commute Nat.diff_add_assoc2)
  then show ?thesis using assms by (simp add: slice_def)
qed

lemma fill_loop_run:
  assumes "\<forall>theta\<in>set rest. broadcast_row d theta = Inr (row theta)"
    and "length pX = k * n" "length pT = k * n" "length pA = k * n" "length pB = k * n"
    and "(k + length rest) * n \<le> length x0"
  shows "fill_loop f sim0 x0 d n incl (enumerate k rest)
           \<lparr> fs_x1 = pX @ sX, fs_theta_1s = pT @ sT,
             fs_ll0_x0 = (if incl then pA @ sA else zA), fs_ll0_x1 = u, fs_ll1_x0 = v,
             fs_ll1_x1 = (if incl then pB @ sB else zB) \<rparr>
         = Inr \<lparr> fs_x1 = (pX @ concat (map (\<lambda>theta. sample (f theta) n) rest))
                          @ drop (length rest * n) sX,
                 fs_theta_1s = (pT @ concat (map (\<lambda>theta. replicate n (row theta)) rest))
                                @ drop (length rest * n) sT,
                 fs_ll0_x0 = (if incl then (pA @ map (log_prob sim0)
                                                   (slice x0 (k * n) ((k + length rest) * n)))
                                           @ drop (length rest * n) sA else zA),
                 fs_ll0_x1 = u, fs_ll1_x0 = v,
                 fs_ll1_x1 = (if incl then
                                (pB @ concat (map (\<lambda>theta. map (log_prob (f theta)) (sample (f theta) n)) rest))
                                @ drop (length rest * n) sB else zB) \<rparr>"
  using assms
proof (induction rest arbitrary: k pX pT pA pB sX sT sA sB)
  case Nil
  then show ?case by (simp add: slice_def)
next
  case (Cons theta rest)
  have b: "broadcast_row d theta = Inr (row theta)" using Cons.prems(1) by simp
  have x0: "(k + 1) * n \<le> length x0" "(Suc k + length rest) * n \<le> length x0"
    using Cons.prems(6) by (simp_all add: algebra_simps)
  have sl: "length (slice x0 (k * n) ((k + 1) * n)) = n"
    using x0(1) by (simp add: slice_def)
  note step = fill_body_step [OF b Cons.prems(2-5) x0(1), of f sim0 incl sX sT sA zA u v sB zB]
  have IH: "fill_loop f sim0 x0 d n incl (enumerate (Suc k) rest)
           \<lparr> fs_x1 = (pX @ sample (f theta) n) @ drop n sX,
             fs_theta_1s = (pT @ replicate n (row theta)) @ drop n sT,
             fs_ll0_x0 = (if incl then (pA @ map (log_prob sim0) (slice x0 (k * n) ((k + 1) * n)))
                                       @ drop n sA else zA),
             fs_ll0_x1 = u, fs_ll1_x0 = v,
             fs_ll1_x1 = (if incl then (pB @ map (log_prob (f theta)) (sample (f theta) n))
                                       @ drop n sB else zB) \<rparr>
         = Inr \<lparr> fs_x1 = ((pX @ sample (f theta) n) @ concat (map (\<lambda>theta. sample (f theta) n) rest))
                          @ drop (length rest * n) (drop n sX),
                 fs_theta_1s = ((pT @ replicate n (row theta))
                                 @ concat (map (\<lambda>theta. replicate n (row theta)) rest))
                                @ drop (length rest * n) (drop n sT),
                 fs_ll0_x0 = (if incl then ((pA @ map (log_prob sim0) (slice x0 (k * n) ((k + 1) * n)))
                                             @ map (log_prob sim0)
                                                   (slice x0 (Suc k * n) ((Suc k + length rest) * n)))
                                           @ drop (length rest * n) (drop n sA) else zA),
                 fs_ll0_x1 = u, fs_ll1_x0 = v,
                 fs_ll1_x1 = (if incl then
                                ((pB @ map (log_prob (f theta)) (sample (f theta) n))
                                  @ concat (map (\<lambda>theta. map (log_prob (f theta)) (sample (f theta) n)) rest))
                                @ drop (length rest * n) (drop n sB) else zB) \<rparr>"
    using Cons.prems(1-5) x0(2) sl
    by (intro Cons.IH) (simp_all add: length_sample)
  have sapp: "slice x0 (k * n) ((k + 1) * n) @ slice x0 (Suc k * n) ((Suc k + length rest) * n)
                = slice x0 (k * n) ((k + length (theta # rest)) * n)"
    using slice_append [of "k * n" "(k + 1) * n" "(Suc k + length rest) * n" x0]
    by (simp add: algebra_simps)
  have "map (log_prob sim0) (slice x0 (k * n) ((k + 1) * n))
          @ map (log_prob sim0) (slice x0 (Suc k * n) ((Suc k + length rest) * n))
        = map (log_prob sim0) (slice x0 (k * n) ((k + length (theta # rest)) * n))"
    unfolding map_append [symmetric] sapp ..
  then show ?case
    unfolding enumerate_simps fill_loop.simps fst_conv snd_conv step bind_err_Inr IH
    by (simp add: add.commute)
qed


lemma fill_body_Inr_broadcast:
  "fill_body f sim0 x0 d n incl i theta st = Inr st' \<Longrightarrow> \<exists>row. broadcast_row d theta = Inr row"
  by (cases "broadcast_row d theta") (simp_all add: fill_body_def Let_def)

lemma fill_loop_Inr_broadcast:
  "fill_loop f sim0 x0 d n incl its st = Inr st' \<Longrightarrow>
     \<forall>it\<in>set its. \<exists>row. broadcast_row d (snd it) = Inr row"
proof (induction its arbitrary: st)
  case Nil
  then show ?case by simp
next
  case (Cons it its)
  from Cons.prems obtain st1
    where b: "fill_body f sim0 x0 d n incl (fst it) (snd it) st = Inr st1"
      and r: "fill_loop f sim0 x0 d n incl its st1 = Inr st'"
    by (auto simp: bind_err_Inr_iff)
  from fill_body_Inr_broadcast [OF b] Cons.IH [OF r] show ?case by simp
qed

lemma RatioDataset_no_shuffle_Inr:
  "RatioDataset x0 t0 t1 y0 n0 False p = Inr ds \<Longrightarrow>
     ds = \<lparr> ds_x = x0, ds_theta_0s = t0, ds_theta_1s = t1, ds_y = y0, ds_nllr = n0 \<rparr>"
  by (simp add: RatioDataset_def Let_def ensure_2d_def split: if_splits)

lemma map2_nllr_blocks:
  assumes "length a = m" and "length b = m"
  shows "map2 (\<lambda>u v. - (u - v)) (replicate m 0 @ b) (a @ replicate m (0::real)) = a @ map uminus b"
proof -
  have "zip (replicate m 0 @ b) (a @ replicate m (0::real))
          = zip (replicate m 0) a @ zip b (replicate m 0)"
    using assms by simp
  moreover have "map (\<lambda>(u, v). - (u - v)) (zip (replicate m (0::real)) a) = a"
    using assms(1) by (induction a arbitrary: m) auto
  moreover have "map (\<lambda>(u, v). - (u - v)) (zip b (replicate m (0::real))) = map uminus b"
    using assms(2) by (induction b arbitrary: m) auto
  ultimately show ?thesis by simp
qed

lemma SinglyParameterizedRatioDataset_Inr:
  assumes c: "SinglyParameterizedRatioDataset f theta_0 thetas n False incl p = Inr ds"
  shows "ds_x ds = sample (f theta_0) (n * length thetas)
                     @ concat (map (\<lambda>theta. sample (f theta) n) thetas)"
    and "ds_theta_0s ds = replicate (2 * (n * length thetas)) theta_0"
    and "ds_theta_1s ds =
           concat (map (\<lambda>theta. replicate n (projr (broadcast_row (length theta_0) theta))) thetas)
         @ concat (map (\<lambda>theta. replicate n (projr (broadcast_row (length theta_0) theta))) thetas)"
    and "ds_y ds = Some (replicate (n * length thetas) 0 @ replicate (n * length thetas) 1)"
    and "ds_nllr ds =
           (if incl then
              Some (map (log_prob (f theta_0)) (sample (f theta_0) (n * length thetas))
                    @ map uminus (concat (map (\<lambda>theta. map (log_prob (f theta)) (sample (f theta) n))
                                              thetas)))
            else None)"
    and "\<forall>theta\<in>set thetas. \<exists>row. broadcast_row (length theta_0) theta = Inr row"
proof -
  define N where "N = n * length thetas"
  define x0 where "x0 = sample (f theta_0) N"
  define d where "d = length theta_0"
  define row where "row theta = projr (broadcast_row d theta)" for theta
  define zs where "zs = replicate N (0::real)"
  define st0 where
    "st0 = \<lparr> fs_x1 = [] @ map (map (\<lambda>_. 0)) x0, fs_theta_1s = [] @ replicate N (replicate d 0),
             fs_ll0_x0 = (if incl then [] @ zs else []), fs_ll0_x1 = (if incl then zs else []),
             fs_ll1_x0 = (if incl then zs else []),
             fs_ll1_x1 = (if incl then [] @ zs else []) \<rparr>"
  have lx0: "length x0 = N" by (simp add: x0_def length_sample)
  have mz: "map (\<lambda>_. 0::real) (replicate N (0::real)) = zs"
    by (simp add: zs_def)
  define K where "K st' = RatioDataset (x0 @ fs_x1 st')
           (stack_repeat theta_0 (length (x0 @ fs_x1 st')))
           (concat_repeat (fs_theta_1s st') 2)
           (Some (replicate N 0 @ replicate N 1))
           (if incl then Some (map2 (\<lambda>a b. - (a - b)) (fs_ll1_x0 st' @ fs_ll1_x1 st')
                                                        (fs_ll0_x0 st' @ fs_ll0_x1 st'))
            else None)
           False p" for st' :: fill_state
  have "SinglyParameterizedRatioDataset f theta_0 thetas n False incl p
          = bind_err (fill_loop f (f theta_0) x0 d n incl (enumerate 0 thetas) st0) K"
    unfolding SinglyParameterizedRatioDataset_def Let_def ensure_2d_def
              N_def [symmetric] x0_def [symmetric] d_def [symmetric]
    by (cases incl) (simp_all add: st0_def lx0 zs_def K_def [abs_def])
  with c obtain st' where
    loop: "fill_loop f (f theta_0) x0 d n incl (enumerate 0 thetas) st0 = Inr st'" and
    rd: "K st' = Inr ds"
    by (auto simp: bind_err_Inr_iff)
  have bc: "\<forall>theta\<in>set thetas. \<exists>r. broadcast_row d theta = Inr r"
  proof
    fix theta assume "theta \<in> set thetas"
    then have "theta \<in> snd ` set (enumerate 0 thetas)"
      by (simp add: set_map [symmetric] del: set_map)
    then obtain it where "it \<in> set (enumerate 0 thetas)" "snd it = theta" by auto
    with fill_loop_Inr_broadcast [OF loop] show "\<exists>r. broadcast_row d theta = Inr r" by auto
  qed
  then have bro: "\<forall>theta\<in>set thetas. broadcast_row d theta = Inr (row theta)"
    by (auto simp: row_def)
  have run: "fill_loop f (f theta_0) x0 d n incl (enumerate 0 thetas) st0
         = Inr \<lparr> fs_x1 = ([] @ concat (map (\<lambda>theta. sample (f theta) n) thetas))
                          @ drop (length thetas * n) (map (map (\<lambda>_. 0)) x0),
                 fs_theta_1s = ([] @ concat (map (\<lambda>theta. replicate n (row theta)) thetas))
                                @ drop (length thetas * n) (replicate N (replicate d 0)),
                 fs_ll0_x0 = (if incl then ([] @ map (log_prob (f theta_0))
                                                   (slice x0 (0 * n) ((0 + length thetas) * n)))
                                           @ drop (length thetas * n) zs else []),
                 fs_ll0_x1 = (if incl then zs else []), fs_ll1_x0 = (if incl then zs else []),
                 fs_ll1_x1 = (if incl then
                                ([] @ concat (map (\<lambda>theta. map (log_prob (f theta)) (sample (f theta) n)) thetas))
                                @ drop (length thetas * n) zs else []) \<rparr>"
    unfolding st0_def
    by (rule fill_loop_run [OF bro]) (simp_all add: lx0 N_def)
  have sl: "slice x0 (0 * n) ((0 + length thetas) * n) = x0"
    using lx0 by (simp add: slice_def N_def mult.commute)
  have st': "st' = \<lparr> fs_x1 = concat (map (\<lambda>theta. sample (f theta) n) thetas),
                 fs_theta_1s = concat (map (\<lambda>theta. replicate n (row theta)) thetas),
                 fs_ll0_x0 = (if incl then map (log_prob (f theta_0)) x0 else []),
                 fs_ll0_x1 = (if incl then zs else []), fs_ll1_x0 = (if incl then zs else []),
                 fs_ll1_x1 = (if incl then
                                concat (map (\<lambda>theta. map (log_prob (f theta)) (sample (f theta) n)) thetas)
                              else []) \<rparr>"
    using loop unfolding run sl by (cases incl) (auto simp: lx0 N_def zs_def mult.commute)
  have lx1: "length (concat (map (\<lambda>theta. sample (f theta) n) thetas)) = N"
    by (simp add: length_concat comp_def length_sample sum_list_triv N_def mult.commute)
  have ll1: "length (concat (map (\<lambda>theta. map (log_prob (f theta)) (sample (f theta) n)) thetas)) = N"
    by (simp add: length_concat comp_def length_sample sum_list_triv N_def mult.commute)
  note ds = RatioDataset_no_shuffle_Inr [OF rd [unfolded K_def]]
  show "ds_x ds = sample (f theta_0) (n * length thetas)
                     @ concat (map (\<lambda>theta. sample (f theta) n) thetas)"
    unfolding ds st' by (simp add: x0_def N_def)
  show "ds_theta_0s ds = replicate (2 * (n * length thetas)) theta_0"
    unfolding ds st' using lx0 lx1 by (simp add: stack_repeat_def N_def)
  show "ds_theta_1s ds =
           concat (map (\<lambda>theta. replicate n (projr (broadcast_row (length theta_0) theta))) thetas)
         @ concat (map (\<lambda>theta. replicate n (projr (broadcast_row (length theta_0) theta))) thetas)"
    unfolding ds st' by (simp add: concat_repeat_def numeral_2_eq_2 row_def d_def)
  show "ds_y ds = Some (replicate (n * length thetas) 0 @ replicate (n * length thetas) 1)"
    unfolding ds by (simp add: N_def)
  show "ds_nllr ds =
           (if incl then
              Some (map (log_prob (f theta_0)) (sample (f theta_0) (n * length thetas))
                    @ map uminus (concat (map (\<lambda>theta. map (log_prob (f theta)) (sample (f theta) n))
                                              thetas)))
            else None)"
    unfolding ds st' using map2_nllr_blocks [of "map (log_prob (f theta_0)) x0" N, OF _ ll1] lx0
    by (cases incl) (simp_all add: zs_def x0_def N_def)
  show "\<forall>theta\<in>set thetas. \<exists>row. broadcast_row (length theta_0) theta = Inr row"
    using bc by (simp add: d_def)
qed


lemma ex_sp_construct:
  "SinglyParameterizedRatioDataset ex_simulator [0] [[1], [3]] 2 False False [] = Inr ex_sp_ds"
  by (simp add: SinglyParameterizedRatioDataset_def Let_def ex_simulator_def sample_def
        ensure_2d_def upt_rec enumerate_simps fill_body_def broadcast_row_def assign_slice_def
        slice_def stack_repeat_def concat_repeat_def RatioDataset_def arr_lens_def ex_sp_ds_def
        numeral_eq_Suc log_prob_batch_def)

lemma ex_nllr_construct:
  "SinglyParameterizedRatioDataset ex_simulator [0] [[1]] 1 False True [] = Inr ex_nllr_ds"
  by (simp add: SinglyParameterizedRatioDataset_def Let_def ex_simulator_def sample_def
        ensure_2d_def upt_rec enumerate_simps fill_body_def broadcast_row_def assign_slice_def
        slice_def stack_repeat_def concat_repeat_def RatioDataset_def arr_lens_def ex_nllr_ds_def
        numeral_eq_Suc log_prob_batch_def)

lemma ln_sqrt_2pi_pos: "0 < ln (sqrt (2 * pi))"
proof -
  have "1 < 2 * pi" using pi_ge_two by simp
  then have "1 < sqrt (2 * pi)" by simp
  then show ?thesis by simp
qed

subsection \<open>The parameter scan\<close>















lemma meshgrid_np_shape:
  assumes "ls \<noteq> []"
  shows "\<exists>m ms. meshgrid_np ls = m # ms \<and> prod_list (nd_shape m) = prod_list (map length ls)"
proof (cases ls rule: meshgrid_np.cases)
  case 1
  with assms show ?thesis by simp
next
  case (2 a)
  then show ?thesis by simp
next
  case (3 a b rest)
  then show ?thesis by (simp add: Let_def upt_rec [of 0])
qed










subsection \<open>The acquisition-guided choice\<close>








subsection \<open>The profile in the shape of the mesh grid\<close>



































section \<open>Verified properties\<close>

text \<open>
  C5. \<open>RatioDataset.__init__\<close> raises \<open>ValueError\<close> exactly when the per-example arrays
  that are given (\<open>x\<close>, \<open>theta_0s\<close>, \<open>theta_1s\<close>, and \<open>y\<close> and \<open>nllr\<close> when not
  \<open>None\<close>) do not all have one length; when they do, the construction succeeds and the
  length of the dataset is that common length, also after the shuffle of the constructor.
\<close>

theorem RatioDataset_length_check:
  assumes "do_shuffle \<longrightarrow> mset p = mset [0..<length x0]"
  shows "(RatioDataset x0 t0 t1 y0 n0 do_shuffle p = Inl ValueError \<longleftrightarrow>
            \<not> same_lengths \<lparr> ds_x = x0, ds_theta_0s = t0, ds_theta_1s = t1,
                              ds_y = y0, ds_nllr = n0 \<rparr>)
       \<and> (same_lengths \<lparr> ds_x = x0, ds_theta_0s = t0, ds_theta_1s = t1,
                          ds_y = y0, ds_nllr = n0 \<rparr> \<longrightarrow>
            (\<exists>self. RatioDataset x0 t0 t1 y0 n0 do_shuffle p = Inr self \<and>
                    ds_len self = length x0 \<and> same_lengths self))"
proof -
  let ?base = "\<lparr> ds_x = x0, ds_theta_0s = t0, ds_theta_1s = t1, ds_y = y0, ds_nllr = n0 \<rparr>"
  have c: "card (set (arr_lens (ensure_2d x0) t0 t1 y0 n0)) = 1 \<longleftrightarrow> same_lengths ?base"
    using arr_lens_one [of x0 t0 t1 y0 n0] by (simp add: ensure_2d_def)
  have ok: "\<exists>self. RatioDataset x0 t0 t1 y0 n0 do_shuffle p = Inr self \<and>
                    ds_len self = length x0 \<and> same_lengths self" if h: "same_lengths ?base"
  proof (cases do_shuffle)
    case True
    with assms have mp: "mset p = mset [0..<length x0]" by simp
    have "\<forall>i\<in>set p. i < ds_len ?base"
      using perm_set [OF mp] by (simp add: ds_len_def)
    with h obtain self where s: "shuffle p ?base = Inr self"
      using shuffle_Inr by blast
    have "RatioDataset x0 t0 t1 y0 n0 do_shuffle p = Inr self"
      using True c h s by (simp add: RatioDataset_def Let_def ensure_2d_def)
    then show ?thesis
      using shuffle_Inr_D [OF s] perm_length [OF mp] by (simp add: ds_len_def)
  next
    case False
    have "RatioDataset x0 t0 t1 y0 n0 do_shuffle p = Inr ?base"
      using False c h by (simp add: RatioDataset_def Let_def ensure_2d_def)
    then show ?thesis
      using h by (simp add: ds_len_def)
  qed
  have fail: "RatioDataset x0 t0 t1 y0 n0 do_shuffle p = Inl ValueError
                \<longleftrightarrow> \<not> same_lengths ?base"
  proof
    assume "RatioDataset x0 t0 t1 y0 n0 do_shuffle p = Inl ValueError"
    with ok show "\<not> same_lengths ?base" by auto
  next
    assume "\<not> same_lengths ?base"
    with c have "card (set (arr_lens (ensure_2d x0) t0 t1 y0 n0)) \<noteq> 1" by simp
    then show "RatioDataset x0 t0 t1 y0 n0 do_shuffle p = Inl ValueError"
      by (simp add: RatioDataset_def Let_def)
  qed
  from fail ok show ?thesis by blast
qed

theorem RatioDataset_length_check_witness:
  "mset [1, 0] = mset [0..<length [[1], [2::real]]]
   \<and> same_lengths \<lparr> ds_x = [[1], [2]], ds_theta_0s = [[0], [0]], ds_theta_1s = [[3], [3]],
                     ds_y = Some [0, 1], ds_nllr = None \<rparr>
   \<and> (\<exists>self. RatioDataset [[1], [2]] [[0], [0]] [[3], [3]] (Some [0, 1]) None True [1, 0]
               = Inr self \<and> ds_len self = 2 \<and> same_lengths self)
   \<and> RatioDataset [[1], [2]] [[0]] [[3], [3]] (Some [0, 1]) None True [1, 0] = Inl ValueError"
proof -
  have p: "True \<longrightarrow> mset [1, 0] = mset [0..<length [[1], [2::real]]]"
    by (simp add: upt_rec)
  have s: "same_lengths \<lparr> ds_x = [[1], [2]], ds_theta_0s = [[0], [0]], ds_theta_1s = [[3], [3]],
                          ds_y = Some [0, 1], ds_nllr = None \<rparr>"
    by (simp add: same_lengths_def ds_len_def)
  have n: "\<not> same_lengths \<lparr> ds_x = [[1], [2]], ds_theta_0s = [[0]], ds_theta_1s = [[3], [3]],
                          ds_y = Some [0, 1], ds_nllr = None \<rparr>"
    by (simp add: same_lengths_def ds_len_def)
  have q: "mset [1, 0] = mset [0..<length [[1], [2::real]]]"
    by (simp add: upt_rec)
  from RatioDataset_length_check [OF p, of "[[0], [0]]" "[[3], [3]]" "Some [0, 1]" None]
       RatioDataset_length_check [OF p, of "[[0]]" "[[3], [3]]" "Some [0, 1]" None] q s n
  show ?thesis by (simp add: numeral_2_eq_2)
qed

text \<open>
  C6. On a constructed \<open>RatioDataset\<close>, \<open>shuffle\<close> with a permutation \<open>p\<close> of
  \<open>range(len(x))\<close> succeeds and applies \<open>p\<close> to every per-example array alike: example
  \<open>i\<close> of the result is example \<open>p[i]\<close> of the dataset in all of \<open>x\<close>, \<open>theta_0s\<close>,
  \<open>theta_1s\<close>, \<open>y\<close> and \<open>nllr\<close>. So the multiset of examples, the multiset of triples
  \<open>(x_i, y_i, theta_1_i)\<close> and the length are unchanged.
\<close>

theorem shuffle_is_permutation:
  assumes "RatioDataset x0 t0 t1 y0 n0 do_shuffle q = Inr self"
    and "mset p = mset [0..<ds_len self]"
  shows "\<exists>self'. shuffle p self = Inr self'
       \<and> examples self' = map (example_at self) p
       \<and> mset (examples self') = mset (examples self)
       \<and> mset (map triple_of (examples self')) = mset (map triple_of (examples self))
       \<and> ds_len self' = ds_len self
       \<and> same_lengths self'"
proof -
  have sl: "same_lengths self"
    using assms(1) by (rule RatioDataset_same_lengths)
  have "\<forall>i\<in>set p. i < ds_len self"
    using perm_set [OF assms(2)] by simp
  with sl obtain self' where s: "shuffle p self = Inr self'"
    using shuffle_Inr by blast
  have e: "examples self' = map (example_at self) p"
    using s by (rule examples_shuffle)
  have m: "mset (examples self') = mset (examples self)"
    unfolding e unfolding examples_def using assms(2) by (rule mset_map_perm)
  have "image_mset triple_of (mset (examples self'))
          = image_mset triple_of (mset (examples self))"
    by (simp only: m)
  then have t: "mset (map triple_of (examples self')) = mset (map triple_of (examples self))"
    by simp
  have l: "ds_len self' = ds_len self"
    using shuffle_Inr_D [OF s] assms(2) by (simp add: ds_len_def perm_length)
  show ?thesis
    using s e m t l shuffle_Inr_D [OF s] by simp
qed

theorem shuffle_is_permutation_witness:
  "RatioDataset [[1], [2]] [[0], [0]] [[3], [3]] (Some [0, 1]) None False [] = Inr ex_ds
   \<and> mset [1, 0] = mset [0..<ds_len ex_ds]
   \<and> (\<exists>self'. shuffle [1, 0] ex_ds = Inr self'
       \<and> examples self' = map (example_at ex_ds) [1, 0]
       \<and> mset (examples self') = mset (examples ex_ds)
       \<and> mset (map triple_of (examples self')) = mset (map triple_of (examples ex_ds))
       \<and> ds_len self' = ds_len ex_ds
       \<and> same_lengths self')"
proof -
  have c: "RatioDataset [[1], [2]] [[0], [0]] [[3], [3]] (Some [0, 1]) None False [] = Inr ex_ds"
    by (simp add: RatioDataset_def ex_ds_def arr_lens_def ensure_2d_def)
  have p: "mset [1, 0] = mset [0..<ds_len ex_ds]"
    by (simp add: ds_len_def ex_ds_def upt_rec)
  from shuffle_is_permutation [OF c p] c p show ?thesis by simp
qed

text \<open>
  C2. After \<open>n\<close> successful calls of \<open>step\<close> (the loop of \<open>fit\<close>), the trialed mask has
  its length unchanged, every entry that was true is still true, and exactly \<open>n\<close> entries
  that were false are now true. A call of \<open>step\<close> whose chosen index is already marked
  never succeeds, and so marks nothing; when the simulation, the concatenation, the reshuffle
  and the model fit before the check succeed, its failure is the \<open>AssertionError\<close> of
  \<open>assert self._trialed_mask[next_theta_index] == 0\<close>.
\<close>

theorem step_marks_one_untrialed_entry:
  "(fit envs self = Inr self' \<longrightarrow>
      length (al_trialed_mask self') = length (al_trialed_mask self) \<and>
      (\<forall>j<length (al_trialed_mask self).
          al_trialed_mask self ! j \<longrightarrow> al_trialed_mask self' ! j) \<and>
      card {j. j < length (al_trialed_mask self) \<and> al_trialed_mask self' ! j
               \<and> \<not> al_trialed_mask self ! j} = length envs \<and>
      n_trialed (al_trialed_mask self') = n_trialed (al_trialed_mask self) + length envs)
   \<and> (env_choice env = Inr i \<and> i < length (al_trialed_mask self) \<and> al_trialed_mask self ! i \<longrightarrow>
        (\<exists>e. step env self = Inl e))
   \<and> (env_choice env = Inr i \<and> i < length (al_trialed_mask self) \<and> al_trialed_mask self ! i \<and>
      getitem (al_all_thetas self) i = Inr th \<and> env_new_ds env th = Inr nd \<and>
      iadd (al_dataset self) nd = Inr d \<and> shuffle (env_perm env) d = Inr d' \<and>
      env_fit env = None \<longrightarrow>
        step env self = Inl AssertionError)"
  using fit_mask [of envs self self'] fit_n_trialed [of envs self self']
        step_trialed_fails [of env i self]
        step_trialed_assertion [of env i self th nd d d']
  by blast

theorem step_marks_one_untrialed_entry_witness:
  "(\<exists>self'. fit [ex_env 1] ex_learner = Inr self' \<and>
      length (al_trialed_mask self') = length (al_trialed_mask ex_learner) \<and>
      card {j. j < length (al_trialed_mask ex_learner) \<and> al_trialed_mask self' ! j
               \<and> \<not> al_trialed_mask ex_learner ! j} = length [ex_env 1] \<and>
      n_trialed (al_trialed_mask self')
        = n_trialed (al_trialed_mask ex_learner) + length [ex_env 1])
   \<and> env_choice (ex_env 0) = Inr 0 \<and> 0 < length (al_trialed_mask ex_learner)
   \<and> al_trialed_mask ex_learner ! 0
   \<and> step (ex_env 0) ex_learner = Inl AssertionError"
proof -
  let ?s1 = "\<lparr> al_all_thetas = [[3], [4]], al_trialed_mask = [True, True],
           al_dataset = \<lparr> ds_x = [[6], [5], [2], [1]], ds_theta_0s = [[0], [0], [0], [0]],
              ds_theta_1s = [[4], [4], [3], [3]], ds_y = Some [1, 0, 1, 0], ds_nllr = None \<rparr> \<rparr>"
  let ?d = "\<lparr> ds_x = [[1], [2], [5], [6]], ds_theta_0s = [[0], [0], [0], [0]],
           ds_theta_1s = [[3], [3], [4], [4]], ds_y = Some [0, 1, 0, 1], ds_nllr = None \<rparr>"
  let ?d' = "\<lparr> ds_x = [[6], [5], [2], [1]], ds_theta_0s = [[0], [0], [0], [0]],
           ds_theta_1s = [[4], [4], [3], [3]], ds_y = Some [1, 0, 1, 0], ds_nllr = None \<rparr>"
  have f: "fit [ex_env 1] ex_learner = Inr ?s1"
    by (simp add: ex_step_ok [simplified])
  have c: "env_choice (ex_env 0) = Inr 0" "0 < length (al_trialed_mask ex_learner)"
      "al_trialed_mask ex_learner ! 0" "env_fit (ex_env 0) = None"
      "getitem (al_all_thetas ex_learner) 0 = Inr [3]" "env_new_ds (ex_env 0) [3] = Inr ex_new_ds"
      "iadd (al_dataset ex_learner) ex_new_ds = Inr ?d"
    by (simp_all add: ex_env_def ex_learner_def getitem_def ex_iadd)
  have s: "shuffle (env_perm (ex_env 0)) ?d = Inr ?d'"
    by (simp add: ex_env_def ex_shuffle [simplified])
  from step_marks_one_untrialed_entry
         [of "[ex_env 1]" ex_learner ?s1 "ex_env 0" 0 "[3]" ex_new_ds ?d ?d'] f c s
  show ?thesis by blast
qed

text \<open>
  C7. The concatenation of two datasets that both satisfy the length invariant and have the
  same optional arrays succeeds; each array of the result is the concatenation of the
  operands' arrays, so its examples are those of the first operand followed by those of the
  second, its length is the sum of the lengths, and the length invariant holds again. A
  successful \<open>step\<close> has concatenated the dataset built at the chosen parameter onto the
  running dataset, and reshuffled.
\<close>

theorem iadd_concatenates:
  assumes "same_lengths a" and "same_lengths b"
    and "(ds_y a = None) = (ds_y b = None)" and "(ds_nllr a = None) = (ds_nllr b = None)"
  shows "(\<exists>c. iadd a b = Inr c
            \<and> ds_x c = ds_x a @ ds_x b
            \<and> ds_theta_0s c = ds_theta_0s a @ ds_theta_0s b
            \<and> ds_theta_1s c = ds_theta_1s a @ ds_theta_1s b
            \<and> ds_y c = (case (ds_y a, ds_y b) of (Some u, Some v) \<Rightarrow> Some (u @ v) | _ \<Rightarrow> None)
            \<and> ds_nllr c = (case (ds_nllr a, ds_nllr b) of (Some u, Some v) \<Rightarrow> Some (u @ v) | _ \<Rightarrow> None)
            \<and> examples c = examples a @ examples b
            \<and> ds_len c = ds_len a + ds_len b
            \<and> same_lengths c)
       \<and> (step env self = Inr self' \<longrightarrow>
            (\<exists>i new_ds c. env_choice env = Inr i
                \<and> env_new_ds env (al_all_thetas self ! i) = Inr new_ds
                \<and> iadd (al_dataset self) new_ds = Inr c
                \<and> shuffle (env_perm env) c = Inr (al_dataset self')))"
proof -
  from iadd_succeeds [OF assms(3,4)] obtain c where c: "iadd a b = Inr c" ..
  note d = iadd_Inr_D [OF c]
  have y: "ds_y c = (case (ds_y a, ds_y b) of (Some u, Some v) \<Rightarrow> Some (u @ v) | _ \<Rightarrow> None)"
    using d(4) by (auto simp: concat_opt_Inr_iff)
  have n: "ds_nllr c = (case (ds_nllr a, ds_nllr b) of (Some u, Some v) \<Rightarrow> Some (u @ v) | _ \<Rightarrow> None)"
    using d(5) by (auto simp: concat_opt_Inr_iff)
  have l: "ds_len c = ds_len a + ds_len b"
    using d(1) by (simp add: ds_len_def)
  have first: "\<exists>c. iadd a b = Inr c
            \<and> ds_x c = ds_x a @ ds_x b
            \<and> ds_theta_0s c = ds_theta_0s a @ ds_theta_0s b
            \<and> ds_theta_1s c = ds_theta_1s a @ ds_theta_1s b
            \<and> ds_y c = (case (ds_y a, ds_y b) of (Some u, Some v) \<Rightarrow> Some (u @ v) | _ \<Rightarrow> None)
            \<and> ds_nllr c = (case (ds_nllr a, ds_nllr b) of (Some u, Some v) \<Rightarrow> Some (u @ v) | _ \<Rightarrow> None)
            \<and> examples c = examples a @ examples b
            \<and> ds_len c = ds_len a + ds_len b
            \<and> same_lengths c"
    using c d(1,2,3) y n l examples_iadd [OF c assms(1)] iadd_same_lengths [OF c assms(1,2)]
    by blast
  have second: "\<exists>i new_ds c. env_choice env = Inr i
                \<and> env_new_ds env (al_all_thetas self ! i) = Inr new_ds
                \<and> iadd (al_dataset self) new_ds = Inr c
                \<and> shuffle (env_perm env) c = Inr (al_dataset self')"
    if "step env self = Inr self'"
    using that unfolding step_def bind_err_Inr_iff getitem_Inr_iff
    by (auto split: if_splits)
  from first second show ?thesis by blast
qed

theorem iadd_concatenates_witness:
  "same_lengths ex_ds \<and> same_lengths ex_new_ds
   \<and> (ds_y ex_ds = None) = (ds_y ex_new_ds = None)
   \<and> (ds_nllr ex_ds = None) = (ds_nllr ex_new_ds = None)
   \<and> (\<exists>c. iadd ex_ds ex_new_ds = Inr c
            \<and> ds_x c = ds_x ex_ds @ ds_x ex_new_ds
            \<and> ds_theta_0s c = ds_theta_0s ex_ds @ ds_theta_0s ex_new_ds
            \<and> ds_theta_1s c = ds_theta_1s ex_ds @ ds_theta_1s ex_new_ds
            \<and> examples c = examples ex_ds @ examples ex_new_ds
            \<and> ds_len c = ds_len ex_ds + ds_len ex_new_ds
            \<and> same_lengths c)
   \<and> (\<exists>self' i new_ds c. step (ex_env 1) ex_learner = Inr self'
                \<and> env_choice (ex_env 1) = Inr i
                \<and> env_new_ds (ex_env 1) (al_all_thetas ex_learner ! i) = Inr new_ds
                \<and> iadd (al_dataset ex_learner) new_ds = Inr c
                \<and> shuffle (env_perm (ex_env 1)) c = Inr (al_dataset self'))"
proof -
  have h: "same_lengths ex_ds" "same_lengths ex_new_ds"
      "(ds_y ex_ds = None) = (ds_y ex_new_ds = None)"
      "(ds_nllr ex_ds = None) = (ds_nllr ex_new_ds = None)"
    by (simp_all add: same_lengths_def ds_len_def ex_ds_def ex_new_ds_def)
  from iadd_concatenates [OF h, of "ex_env 1" ex_learner] ex_step_ok h
  show ?thesis by blast
qed

text \<open>
  C8. For a non-empty grid and a non-empty iterator of sampled vectors, all of one width, the
  mask that \<open>__init__\<close> derives has one entry per grid point, and the entry is true exactly
  when the grid point equals at least one sampled vector. On the grid
  \<open>ParamGrid(bounds=[(0, 1)], num=5)\<close> the sampled parameter \<open>0.5\<close> gives the mask
  \<open>[False, False, True, False, False]\<close>.
\<close>

theorem trialed_mask_exact_match:
  "(thetas \<noteq> [] \<and> grid \<noteq> [] \<and> (\<forall>g\<in>set grid. length g = d) \<and> (\<forall>t\<in>set thetas. length t = d) \<longrightarrow>
      (\<exists>m. trialed_mask_init grid thetas = Inr m \<and> length m = length grid \<and>
           (\<forall>j<length grid. m ! j \<longleftrightarrow> (\<exists>t\<in>set thetas. grid ! j = t))))
   \<and> (\<exists>g. ParamGrid [(0, 1)] (Shared 5) = Inr g \<and>
           trialed_mask_init (pg_values g) (SingleParamIterator [1/2] 1)
             = Inr [False, False, True, False, False])"
  (is "(?H \<longrightarrow> ?C) \<and> ?E")
proof -
  have a: "?C" if "?H"
    using that trialed_mask_init_Inr [of thetas grid d] by blast
  have b: "?E"
    unfolding ex_grid using ex_mask by simp
  show ?thesis
    by (rule conjI [OF impI [OF a] b])
qed

theorem trialed_mask_exact_match_witness:
  "[[1/2], [3::real]] \<noteq> [] \<and> [[0], [1/4], [1/2], [3/4], [1::real]] \<noteq> []
   \<and> map length [[0], [1/4], [1/2], [3/4], [1::real]] = replicate 5 1
   \<and> map length [[1/2], [3::real]] = replicate 2 1
   \<and> (\<exists>m. trialed_mask_init [[0], [1/4], [1/2], [3/4], [1]] [[1/2], [3]] = Inr m \<and>
           length m = length [[0], [1/4], [1/2], [3/4], [1::real]] \<and>
           (\<forall>j<length [[0], [1/4], [1/2], [3/4], [1::real]].
               m ! j \<longleftrightarrow> (\<exists>t\<in>set [[1/2], [3::real]].
                                [[0], [1/4], [1/2], [3/4], [1::real]] ! j = t)))"
  (is "?A \<and> ?B \<and> ?L1 \<and> ?L2 \<and> ?C")
proof -
  have h: "[[1/2], [3::real]] \<noteq> [] \<and> [[0], [1/4], [1/2], [3/4], [1::real]] \<noteq> [] \<and>
           (\<forall>g\<in>set [[0], [1/4], [1/2], [3/4], [1::real]]. length g = 1) \<and>
           (\<forall>t\<in>set [[1/2], [3::real]]. length t = 1)"
    by simp
  have ab: "?A" "?B" by simp_all
  have l: "?L1" "?L2"
    by (simp_all add: numeral_eq_Suc)
  have c: "?C"
    by (rule mp [OF conjunct1 [OF trialed_mask_exact_match] h])
  show ?thesis
    by (rule conjI [OF ab(1) conjI [OF ab(2) conjI [OF l(1) conjI [OF l(2) c]]]])
qed

text \<open>
  C9. \<open>ParamGrid(bounds=[(0, 1)], num=5)\<close> has the values \<open>[0], [0.25], [0.5], [0.75], [1]\<close>
  in this order. In general a \<open>ParamGrid\<close> that is constructed has one linear space per
  pair of bounds, with \<open>num\<close> points from the lower to the upper bound in equal steps, and
  its values are the Cartesian product of these spaces with the first dimension outermost:
  the value at position \<open>i * m + j\<close>, for \<open>m\<close> the size of the product of the other
  dimensions, is the \<open>i\<close>-th point of the first space followed by the \<open>j\<close>-th value of
  that product.
\<close>

theorem ParamGrid_enumerates_product:
  "ParamGrid [(0, 1)] (Shared 5) =
     Inr \<lparr> pg_linspaces = [[0, 1/4, 1/2, 3/4, 1]],
           pg_values = [[0], [1/4], [1/2], [3/4], [1]] \<rparr>
   \<and> (ParamGrid bounds num = Inr g \<longrightarrow>
        length (pg_linspaces g) = length bounds
      \<and> (\<forall>k<length bounds. \<exists>n. n = (case num of Shared n \<Rightarrow> n | PerDim ns \<Rightarrow> ns ! k)
            \<and> 0 \<le> n \<and> length (pg_linspaces g ! k) = nat n
            \<and> (\<forall>i<nat n. pg_linspaces g ! k ! i =
                  (if n = 1 then fst (bounds ! k)
                   else fst (bounds ! k)
                        + real i * ((snd (bounds ! k) - fst (bounds ! k)) / real (nat n - 1)))))
      \<and> pg_values g = product_lists (pg_linspaces g)
      \<and> length (pg_values g) = prod_list (map length (pg_linspaces g)))
   \<and> (ParamGrid bounds num = Inr g \<and> pg_linspaces g = l # ls \<and> i < length l
        \<and> j < prod_list (map length ls) \<longrightarrow>
        pg_values g ! (i * prod_list (map length ls) + j) = l ! i # product_lists ls ! j)"
  (is "?E \<and> (?H1 \<longrightarrow> ?C1) \<and> (?H2 \<longrightarrow> ?C2)")
proof -
  have general: "?C1" if pg: "?H1"
  proof -
    define nums where
      "nums = (case num of Shared n \<Rightarrow> replicate (length bounds) n | PerDim ns \<Rightarrow> ns)"
    note b = build_linspaces_Inr [OF ParamGrid_Inr_D(1) [OF pg, folded nums_def]]
    have nk: "nums ! k = (case num of Shared n \<Rightarrow> n | PerDim ns \<Rightarrow> ns ! k)"
      if "k < length bounds" for k
      using that by (simp add: nums_def split: num_arg.splits)
    have dim: "\<exists>n. n = (case num of Shared n \<Rightarrow> n | PerDim ns \<Rightarrow> ns ! k)
            \<and> 0 \<le> n \<and> length (pg_linspaces g ! k) = nat n
            \<and> (\<forall>i<nat n. pg_linspaces g ! k ! i =
                  (if n = 1 then fst (bounds ! k)
                   else fst (bounds ! k)
                        + real i * ((snd (bounds ! k) - fst (bounds ! k)) / real (nat n - 1))))"
      if k: "k < length bounds" for k
    proof -
      from b k have "linspace (fst (bounds ! k)) (snd (bounds ! k)) (nums ! k)
                       = Inr (pg_linspaces g ! k)"
        by simp
      from linspace_Inr [OF this] show ?thesis
        unfolding nk [OF k] by simp
    qed
    have "length (pg_linspaces g) = length bounds" using b by simp
    moreover have "pg_values g = product_lists (pg_linspaces g)"
      by (rule ParamGrid_Inr_D(2) [OF pg])
    moreover have "length (pg_values g) = prod_list (map length (pg_linspaces g))"
      unfolding ParamGrid_Inr_D(2) [OF pg] by (rule length_product_lists)
    ultimately show ?thesis using dim by (intro conjI allI impI)
  qed
  have index: "?C2" if h: "?H2"
  proof -
    from h have pg: "ParamGrid bounds num = Inr g" and ls: "pg_linspaces g = l # ls"
      and i: "i < length l" and j: "j < length (product_lists ls)"
      by (simp_all add: length_product_lists)
    show ?thesis
      unfolding ParamGrid_Inr_D(2) [OF pg] ls length_product_lists [symmetric]
      using i j by (rule product_lists_nth)
  qed
  show ?thesis
    by (rule conjI [OF ex_grid conjI [OF impI [OF general] impI [OF index]]])
qed

theorem ParamGrid_enumerates_product_witness:
  "ParamGrid [(0, 1), (0, 2)] (PerDim [2, 3]) =
     Inr \<lparr> pg_linspaces = [[0, 1], [0, 1, 2]],
           pg_values = [[0, 0], [0, 1], [0, 2], [1, 0], [1, 1], [1, 2]] \<rparr>
   \<and> 1 < length [0, 1::real] \<and> 2 < prod_list (map length [[0, 1, 2::real]])
   \<and> pg_values \<lparr> pg_linspaces = [[0, 1], [0, 1, 2]],
           pg_values = [[0, 0], [0, 1], [0, 2], [1, 0], [1, 1], [1, 2]] \<rparr>
        ! (1 * prod_list (map length [[0, 1, 2::real]]) + 2)
      = [0, 1] ! 1 # product_lists [[0, 1, 2]] ! 2"
  (is "?G \<and> ?I \<and> ?J \<and> ?C")
proof -
  let ?g = "\<lparr> pg_linspaces = [[0, 1], [0, 1, 2]],
           pg_values = [[0, 0], [0, 1], [0, 2], [1, 0], [1, 1], [1, 2::real]] \<rparr>"
  have h: "pg_linspaces ?g = [0, 1] # [[0, 1, 2]]" "?I" "?J"
    by simp_all
  have c: "?C"
    by (rule mp [OF conjunct2 [OF conjunct2 [OF ParamGrid_enumerates_product]]
                    conjI [OF ex_grid2_value conjI [OF h(1) conjI [OF h(2) h(3)]]]])
  show ?thesis
    by (rule conjI [OF ex_grid2_value conjI [OF h(2) conjI [OF h(3) c]]])
qed

text \<open>
  C1. The claim has the \<open>nllr\<close> of every example equal to \<open>-(log p1(x) - log p0(x))\<close>.
  The constructor does not compute that: its loop assigns \<open>ll0_x0\<close> and \<open>ll1_x1\<close> twice
  each and leaves \<open>ll0_x1\<close> and \<open>ll1_x0\<close> at zero. For the unit-variance normal
  simulator, reference parameter 0, one alternate parameter 1, one sample per parameter and
  the draws \<open>x0 = 0\<close>, \<open>x1 = 1\<close>, the constructor returns
  \<open>nllr = [log p0(x0), - log p1(x1)] = [- ln (sqrt (2 pi)), ln (sqrt (2 pi))]\<close>, and the
  claim's values are \<open>[1/2, - 1/2]\<close>.
\<close>

theorem nllr_duplicated_assignments:
  "SinglyParameterizedRatioDataset ex_simulator [0] [[1]] 1 False True [] = Inr ex_nllr_ds
   \<and> ds_nllr ex_nllr_ds = Some [- ln (sqrt (2 * pi)), ln (sqrt (2 * pi))]
   \<and> nllr_spec ex_simulator [0] ex_nllr_ds = [1/2, - (1/2)]
   \<and> ds_nllr ex_nllr_ds \<noteq> Some (nllr_spec ex_simulator [0] ex_nllr_ds)"
proof -
  have a: "ds_nllr ex_nllr_ds = Some [- ln (sqrt (2 * pi)), ln (sqrt (2 * pi))]"
    by (simp add: ex_nllr_ds_def)
  have b: "nllr_spec ex_simulator [0] ex_nllr_ds = [1/2, - (1/2)]"
    by (simp add: nllr_spec_def ex_nllr_ds_def ex_simulator_def)
  have "- ln (sqrt (2 * pi)) < 1/2"
    using ln_sqrt_2pi_pos by linarith
  then have "[- ln (sqrt (2 * pi)), ln (sqrt (2 * pi))] \<noteq> [1/2, - (1/2)]"
    by auto
  then have c: "ds_nllr ex_nllr_ds \<noteq> Some (nllr_spec ex_simulator [0] ex_nllr_ds)"
    unfolding a b by simp
  show ?thesis
    by (rule conjI [OF ex_nllr_construct conjI [OF a conjI [OF b c]]])
qed

text \<open>
  C10. In a \<open>SinglyParameterizedRatioDataset\<close> constructed without shuffling, with \<open>n\<close>
  samples per parameter and \<open>T\<close> alternate parameters, \<open>theta_1s\<close> has \<open>2 n T\<close> rows,
  its first \<open>n T\<close> rows (the examples of label 0) are, row for row, its last \<open>n T\<close> rows
  (the examples of label 1), and these rows are \<open>n\<close> copies of each alternate parameter in
  the order of the iterator: the examples of label 0 carry alternate parameters, not the
  reference parameter.
\<close>

theorem theta_1s_replicated_across_halves:
  assumes "SinglyParameterizedRatioDataset f theta_0 thetas n False incl p = Inr ds"
  shows "length (ds_theta_1s ds) = 2 * (n * length thetas)
       \<and> take (n * length thetas) (ds_theta_1s ds) = drop (n * length thetas) (ds_theta_1s ds)
       \<and> (\<forall>i < n * length thetas. ds_theta_1s ds ! i = ds_theta_1s ds ! (n * length thetas + i))
       \<and> ds_y ds = Some (replicate (n * length thetas) 0 @ replicate (n * length thetas) 1)
       \<and> map Inr (take (n * length thetas) (ds_theta_1s ds))
           = concat (map (\<lambda>theta. replicate n (broadcast_row (length theta_0) theta)) thetas)"
proof -
  define B where
    "B = concat (map (\<lambda>theta. replicate n (projr (broadcast_row (length theta_0) theta))) thetas)"
  note d = SinglyParameterizedRatioDataset_Inr [OF assms]
  have t: "ds_theta_1s ds = B @ B" using d(3) by (simp add: B_def)
  have lB: "length B = n * length thetas"
    by (simp add: B_def length_concat comp_def sum_list_triv mult.commute)
  have bi: "map Inr B = concat (map (\<lambda>theta. replicate n (broadcast_row (length theta_0) theta)) thetas)"
  proof -
    have "map (\<lambda>theta. map Inr (replicate n (projr (broadcast_row (length theta_0) theta)))) thetas
            = map (\<lambda>theta. replicate n (broadcast_row (length theta_0) theta)) thetas"
    proof (rule map_cong [OF refl])
      fix theta assume "theta \<in> set thetas"
      with d(6) obtain r where "broadcast_row (length theta_0) theta = Inr r" by blast
      then show "map Inr (replicate n (projr (broadcast_row (length theta_0) theta)))
                   = replicate n (broadcast_row (length theta_0) theta)"
        by simp
    qed
    then show ?thesis
      by (simp only: B_def map_concat map_map comp_def)
  qed
  have "\<forall>i < n * length thetas. ds_theta_1s ds ! i = ds_theta_1s ds ! (n * length thetas + i)"
    using lB by (simp add: t nth_append)
  then show ?thesis
    using lB bi d(4) by (simp add: t)
qed

theorem theta_1s_replicated_across_halves_witness:
  "SinglyParameterizedRatioDataset ex_simulator [0] [[1], [3]] 2 False False [] = Inr ex_sp_ds
   \<and> length (ds_theta_1s ex_sp_ds) = 2 * (2 * length [[1], [3::real]])
   \<and> take (2 * length [[1], [3::real]]) (ds_theta_1s ex_sp_ds)
        = drop (2 * length [[1], [3::real]]) (ds_theta_1s ex_sp_ds)
   \<and> ds_y ex_sp_ds = Some (replicate (2 * length [[1], [3::real]]) 0
                            @ replicate (2 * length [[1], [3::real]]) 1)"
  using theta_1s_replicated_across_halves [OF ex_sp_construct] ex_sp_construct
  by (intro conjI) (elim conjE, assumption)+








end
